theory Spec2Isabelle
  imports Main
begin

section \<open>Go library functions used by the provider\<close>

text \<open>
  Go strings are byte sequences; they are modelled as \<open>string\<close> (a list of 8-bit
  characters). Go \<open>error\<close> values are modelled by their message.
\<close>

type_synonym error = string

text \<open>\<^verbatim>\<open>strings.HasPrefix(s, prefix)\<close>:
  \<^verbatim>\<open>len(s) >= len(prefix) && s[:len(prefix)] == prefix\<close>.\<close>

definition HasPrefix :: "string \<Rightarrow> string \<Rightarrow> bool" where
  "HasPrefix s p = (length p \<le> length s \<and> take (length p) s = p)"

text \<open>\<^verbatim>\<open>strings.Index(s, sep)\<close>: the position of the first occurrence of \<open>sep\<close>
  in \<open>s\<close>; Go's \<open>-1\<close> is \<open>None\<close>.\<close>

fun Index :: "string \<Rightarrow> string \<Rightarrow> nat option" where
  "Index [] sep = (if sep = [] then Some 0 else None)"
| "Index (c # cs) sep =
     (if HasPrefix (c # cs) sep then Some 0 else map_option Suc (Index cs sep))"

lemma Index_bound: "Index s sep = Some m \<Longrightarrow> m + length sep \<le> length s"
proof (induction s arbitrary: m)
  case Nil
  then show ?case by (simp split: if_splits)
next
  case (Cons c cs)
  show ?case
  proof (cases "HasPrefix (c # cs) sep")
    case True
    with Cons.prems show ?thesis by (simp add: HasPrefix_def)
  next
    case False
    with Cons.prems obtain k where "Index cs sep = Some k" and "m = Suc k"
      by auto
    with Cons.IH show ?thesis by fastforce
  qed
qed

text \<open>\<^verbatim>\<open>strings.Split(s, sep)\<close>: cut \<open>s\<close> at the successive leftmost occurrences of
  \<open>sep\<close>, as the library's loop \<^verbatim>\<open>m := Index(s, sep); a[i] = s[:m]; s = s[m+len(sep):]\<close>
  does. With an empty separator the library splits after every character; the
  provider only ever splits on \<^verbatim>\<open>"/keyspace/"\<close> and \<^verbatim>\<open>"/"\<close>.\<close>

function Split :: "string \<Rightarrow> string \<Rightarrow> string list" where
  "Split s sep =
     (if sep = [] then map (\<lambda>c. [c]) s
      else case Index s sep of
             None \<Rightarrow> [s]
           | Some m \<Rightarrow> take m s # Split (drop (m + length sep) s) sep)"
  by pat_completeness auto
termination
proof (relation "measure (\<lambda>(s, sep). length s)")
  show "wf (measure (\<lambda>(s, sep). length s))" by simp
next
  fix s sep :: string and m :: nat
  assume "sep \<noteq> []" and "Index s sep = Some m"
  then have "m + length sep \<le> length s" and "0 < length sep"
    by (auto dest: Index_bound)
  then have "length s - (m + length sep) < length s"
    by arith
  then show "((drop (m + length sep) s, sep), (s, sep)) \<in> measure (\<lambda>(s, sep). length s)"
    by simp
qed

declare Split.simps [simp del]

text \<open>\<^verbatim>\<open>strings.ToLower\<close> on the ASCII range: the letters \<open>A\<close>..\<open>Z\<close> are moved to
  \<open>a\<close>..\<open>z\<close>, every other byte is kept. (Go maps runes outside ASCII through the
  Unicode case tables; those bytes are kept unchanged here.)\<close>

definition toLowerByte :: "char \<Rightarrow> char" where
  "toLowerByte c =
     (if (65::nat) \<le> of_char c \<and> of_char c \<le> (90::nat)
      then char_of (of_char c + (32::nat)) else c)"

definition ToLower :: "string \<Rightarrow> string" where
  "ToLower s = map toLowerByte s"

text \<open>\<^verbatim>\<open>strings.ReplaceAll(s, "-", "")\<close>, the only use the provider makes of it.\<close>

definition ReplaceAll_dash :: "string \<Rightarrow> string" where
  "ReplaceAll_dash s = filter (\<lambda>c. c \<noteq> CHR ''-'') s"

section \<open>Resource identity strings\<close>

text \<open>\<^verbatim>\<open>fmt.Sprintf("%s/keyspace/%s", databaseID, keyspaceName)\<close>, the id written by
  \<open>setKeyspaceResourceData\<close>.\<close>

definition keyspaceID :: "string \<Rightarrow> string \<Rightarrow> string" where
  "keyspaceID databaseID keyspaceName = databaseID @ ''/keyspace/'' @ keyspaceName"

definition parseKeyspaceID :: "string \<Rightarrow> error + (string \<times> string)" where
  "parseKeyspaceID ident =
     (let idParts = Split ident ''/keyspace/'' in
      if length idParts \<noteq> 2
      then Inl ''invalid keyspace id format: expected database_id/keyspace''
      else Inr (idParts ! 0, idParts ! 1))"

text \<open>\<^verbatim>\<open>fmt.Sprintf("%s/%s/%s/%s", databaseId, keyspace, table, tenantName)\<close>, the id
  written at the end of \<open>resourceCDCCreate\<close>.\<close>

definition cdcID :: "string \<Rightarrow> string \<Rightarrow> string \<Rightarrow> string \<Rightarrow> string" where
  "cdcID databaseId keyspace table tenantName =
     databaseId @ ''/'' @ keyspace @ ''/'' @ table @ ''/'' @ tenantName"

definition parseCDCID :: "string \<Rightarrow> error + (string \<times> string \<times> string \<times> string)" where
  "parseCDCID ident =
     (let idParts = Split (ToLower ident) ''/'' in
      if length idParts \<noteq> 4
      then Inl ''invalid role id format: expected databaseId/keyspace/table/tenantName''
      else Inr (idParts ! 0, idParts ! 1, idParts ! 2, idParts ! 3))"

section \<open>The remote control plane and the resource state\<close>

text \<open>
  A Go function either returns or panics. A run-time panic (index out of range, nil
  dereference) is the value \<open>Panic\<close>.
\<close>

datatype 'a go = Return 'a | Panic string

text \<open>\<open>diag.Diagnostics\<close>: \<open>None\<close> is \<^verbatim>\<open>nil\<close>, \<open>Some msg\<close> a single error diagnostic
  (\<^verbatim>\<open>diag.FromErr\<close>, \<^verbatim>\<open>diag.Errorf\<close>).\<close>

type_synonym Diagnostics = "error option"

text \<open>\<open>astra.StatusEnum\<close> is a Go string type; the four constants the provider
  switches on carry their own names as values.\<close>

type_synonym StatusEnum = string

definition ACTIVE :: StatusEnum where "ACTIVE = ''ACTIVE''"
definition ERROR :: StatusEnum where "ERROR = ''ERROR''"
definition TERMINATED :: StatusEnum where "TERMINATED = ''TERMINATED''"
definition TERMINATING :: StatusEnum where "TERMINATING = ''TERMINATING''"

text \<open>\<open>astra.Database\<close>, with the fields the provider reads. \<open>CloudProvider\<close> and
  \<open>Region\<close> are pointers in Go (\<open>None\<close> is \<^verbatim>\<open>nil\<close>).\<close>

record DatabaseInfo =
  CloudProvider :: "string option"
  Region :: "string option"

record Database =
  Status :: StatusEnum
  Info :: DatabaseInfo

text \<open>A response of the generated DevOps client (\<open>...WithResponse\<close>): the HTTP status
  code, the raw body, and the decoded body \<open>JSON200\<close> (\<^verbatim>\<open>nil\<close> is \<open>None\<close>).\<close>

record 'a ClientResponse =
  StatusCode :: int
  Body :: string
  JSON200 :: "'a option"

text \<open>An \<open>http.Response\<close>: the status line (such as \<^verbatim>\<open>"401 Unauthorized"\<close>) and what
  \<^verbatim>\<open>ioutil.ReadAll\<close> yields on its body, the bytes read and the read error if any.\<close>

record HttpResponse =
  HttpStatus :: string
  HttpBody :: "string \<times> error option"

text \<open>One element of \<open>CDCResult\<close>, with the fields the provider reads.\<close>

record CDCEntry =
  Keyspace :: string
  DatabaseTable :: string
  ConnectorStatus :: string
  DataTopic :: string

text \<open>One element of \<open>StreamingTokens\<close>.\<close>

record StreamingToken =
  Tokenid :: string

text \<open>
  The remote side. The provider is sequential and deterministic, so an execution is
  fixed by the reply each endpoint gives to its first, second, ... call: every endpoint
  is a function from the call number to the reply, \<open>Inl err\<close> for a transport error.
  Request contents are not modelled, since they are only sent. \<open>getDatabase\<close> is the
  provider's own helper, which is not part of the sources at hand; it is taken as one
  more endpoint. \<^verbatim>\<open>json.Unmarshal\<close> is taken as a function of the body: the token list
  or an error, and the value left in \<open>cdcResult\<close> (both callers ignore its error).
\<close>

record Remote =
  GetDatabaseWithResponse :: "nat \<Rightarrow> error + Database ClientResponse"
  AddKeyspaceWithResponse :: "nat \<Rightarrow> error + unit ClientResponse"
  DropKeyspaceWithResponse :: "nat \<Rightarrow> error + unit ClientResponse"
  GetCurrentOrganization :: "nat \<Rightarrow> error + HttpResponse"
  getDatabase :: "nat \<Rightarrow> error + Database"
  IdListTenantTokensWithResponse :: "nat \<Rightarrow> error + string"
  GetTokenByIDWithResponse :: "nat \<Rightarrow> error + string"
  EnableCDC :: "nat \<Rightarrow> error + HttpResponse"
  GetCDC :: "nat \<Rightarrow> error + HttpResponse"
  Unmarshal_StreamingTokens :: "string \<Rightarrow> error + StreamingToken list"
  Unmarshal_CDCResult :: "string \<Rightarrow> CDCEntry list"

text \<open>\<open>schema.ResourceData\<close>: the attribute names of the resource's schema, the id and
  the attribute values. \<open>d.Set\<close> fails on a name the schema does not declare.\<close>

record ResourceData =
  SchemaKeys :: "string list"
  ResourceId :: string
  Attrs :: "string \<rightharpoonup> string"

definition ResourceData_Get :: "ResourceData \<Rightarrow> string \<Rightarrow> string" where
  "ResourceData_Get d key = (case Attrs d key of None \<Rightarrow> [] | Some v \<Rightarrow> v)"

definition ResourceData_Set :: "ResourceData \<Rightarrow> string \<Rightarrow> string \<Rightarrow> error option \<times> ResourceData" where
  "ResourceData_Set d key v =
     (if key \<in> set (SchemaKeys d) then (None, d\<lparr>Attrs := (Attrs d)(key \<mapsto> v)\<rparr>)
      else (Some (''Invalid address to set: '' @ key), d))"

definition ResourceData_SetId :: "ResourceData \<Rightarrow> string \<Rightarrow> ResourceData" where
  "ResourceData_SetId d v = d\<lparr>ResourceId := v\<rparr>"

text \<open>The attribute names declared by \<open>resourceKeyspace\<close> and \<open>resourceCDC\<close>.\<close>

definition resourceKeyspace_Schema :: "string list" where
  "resourceKeyspace_Schema = [''name'', ''database_id'']"

definition resourceCDC_Schema :: "string list" where
  "resourceCDC_Schema =
     [''table'', ''keyspace'', ''database_id'', ''database_name'', ''topic_partitions'',
      ''tenant_name'', ''connector_status'', ''data_topic'']"

text \<open>The state an operation runs in: the resource data, how many calls each endpoint
  has received, and the seconds spent in \<^verbatim>\<open>time.Sleep\<close>.\<close>

record World =
  resourceData :: ResourceData
  GetDatabaseWithResponse_calls :: nat
  AddKeyspaceWithResponse_calls :: nat
  DropKeyspaceWithResponse_calls :: nat
  GetCurrentOrganization_calls :: nat
  getDatabase_calls :: nat
  IdListTenantTokensWithResponse_calls :: nat
  GetTokenByIDWithResponse_calls :: nat
  EnableCDC_calls :: nat
  GetCDC_calls :: nat
  Sleep_seconds :: nat

section \<open>The keyspace resource\<close>

definition setKeyspaceResourceData :: "ResourceData \<Rightarrow> string \<Rightarrow> string \<Rightarrow> error option \<times> ResourceData" where
  "setKeyspaceResourceData d databaseID keyspaceName =
     (let d1 = ResourceData_SetId d (keyspaceID databaseID keyspaceName) in
      case ResourceData_Set d1 ''name'' keyspaceName of
        (Some err, d2) \<Rightarrow> (Some err, d2)
      | (None, d2) \<Rightarrow>
          (case ResourceData_Set d2 ''database_id'' databaseID of
             (Some err, d3) \<Rightarrow> (Some err, d3)
           | (None, d3) \<Rightarrow> (None, d3)))"

text \<open>\<open>retry.RetryError\<close>, as built by \<^verbatim>\<open>retry.RetryableError\<close> and
  \<^verbatim>\<open>retry.NonRetryableError\<close>; the closure's \<^verbatim>\<open>nil\<close> is \<open>None\<close>.\<close>

datatype RetryError = RetryableError error | NonRetryableError error

text \<open>The body of \<^verbatim>\<open>case astra.ACTIVE:\<close> in the closure of \<open>resourceKeyspaceCreate\<close>.\<close>

definition addKeyspaceStep :: "Remote \<Rightarrow> string \<Rightarrow> string \<Rightarrow> World \<Rightarrow> RetryError option \<times> World" where
  "addKeyspaceStep env databaseID keyspaceName w =
     (let w1 = w\<lparr>AddKeyspaceWithResponse_calls := Suc (AddKeyspaceWithResponse_calls w)\<rparr> in
      case AddKeyspaceWithResponse env (AddKeyspaceWithResponse_calls w) of
        Inl err \<Rightarrow>
          (Some (NonRetryableError (''error calling add keyspace (not retrying) '' @ err)), w1)
      | Inr resp \<Rightarrow>
          if StatusCode resp = 409 then
            (Some (RetryableError
               (''error adding keyspace to database (retrying): '' @ Body resp)), w1)
          else if StatusCode resp = 401 then
            (Some (NonRetryableError
               ''error adding keyspace to database (insufficient permissions, role missing 'db-keyspace-create')''), w1)
          else if StatusCode resp \<ge> 400 then
            (Some (NonRetryableError
               (''error adding keyspace to database (not retrying): '' @ Body resp)), w1)
          else
            (case setKeyspaceResourceData (resourceData w1) databaseID keyspaceName of
               (Some err, d') \<Rightarrow>
                 (Some (NonRetryableError (''error setting keyspace data (not retrying) '' @ err)),
                  w1\<lparr>resourceData := d'\<rparr>)
             | (None, d') \<Rightarrow> (None, w1\<lparr>resourceData := d'\<rparr>)))"

text \<open>The closure \<open>resourceKeyspaceCreate\<close> hands to \<^verbatim>\<open>retry.RetryContext\<close>: one read of
  the database and, when it is active, the mutation.\<close>

definition keyspaceCreateAttempt :: "Remote \<Rightarrow> string \<Rightarrow> string \<Rightarrow> World \<Rightarrow> RetryError option \<times> World" where
  "keyspaceCreateAttempt env databaseID keyspaceName w =
     (let w1 = w\<lparr>GetDatabaseWithResponse_calls := Suc (GetDatabaseWithResponse_calls w)\<rparr> in
      case GetDatabaseWithResponse env (GetDatabaseWithResponse_calls w) of
        Inl err \<Rightarrow> (Some (RetryableError err), w1)
      | Inr res \<Rightarrow>
          if StatusCode res \<ge> 500 then
            (Some (RetryableError (''error while fetching database: '' @ Body res)), w1)
          else if StatusCode res > 200 \<or> JSON200 res = None then
            (Some (NonRetryableError
               (''unexpected response fetching database: '' @ Body res)), w1)
          else
            (case JSON200 res of
               None \<Rightarrow>
                 (Some (NonRetryableError
                    (''unexpected response fetching database: '' @ Body res)), w1)
             | Some db \<Rightarrow>
                 if Status db = ERROR \<or> Status db = TERMINATED \<or> Status db = TERMINATING then
                   (Some (NonRetryableError
                      (''database failed to reach active status: status='' @ Status db)), w1)
                 else if Status db = ACTIVE then
                   addKeyspaceStep env databaseID keyspaceName w1
                 else
                   (Some (RetryableError
                      (''expected database to be active but is '' @ Status db)), w1)))"

text \<open>The body of \<^verbatim>\<open>case astra.ACTIVE:\<close> in the closure of \<open>resourceKeyspaceDelete\<close>.\<close>

definition dropKeyspaceStep :: "Remote \<Rightarrow> string \<Rightarrow> string \<Rightarrow> World \<Rightarrow> RetryError option \<times> World" where
  "dropKeyspaceStep env databaseID keyspaceName w =
     (let w1 = w\<lparr>DropKeyspaceWithResponse_calls := Suc (DropKeyspaceWithResponse_calls w)\<rparr> in
      case DropKeyspaceWithResponse env (DropKeyspaceWithResponse_calls w) of
        Inl err \<Rightarrow>
          (Some (NonRetryableError (''error calling drop keyspace (not retrying) '' @ err)), w1)
      | Inr resp \<Rightarrow>
          if StatusCode resp = 409 then
            (Some (RetryableError
               (''error dropping keyspace from database (retrying): '' @ Body resp)), w1)
          else if StatusCode resp = 401 then
            (Some (NonRetryableError
               ''error adding keyspace to database (insufficient permissions, role missing 'db-keyspace-drop')''), w1)
          else if StatusCode resp \<ge> 400 then
            (Some (NonRetryableError
               (''error dropping keyspace from database (not retrying): '' @ Body resp)), w1)
          else
            (None, w1\<lparr>resourceData := ResourceData_SetId (resourceData w1) []\<rparr>))"

definition keyspaceDeleteAttempt :: "Remote \<Rightarrow> string \<Rightarrow> string \<Rightarrow> World \<Rightarrow> RetryError option \<times> World" where
  "keyspaceDeleteAttempt env databaseID keyspaceName w =
     (let w1 = w\<lparr>GetDatabaseWithResponse_calls := Suc (GetDatabaseWithResponse_calls w)\<rparr> in
      case GetDatabaseWithResponse env (GetDatabaseWithResponse_calls w) of
        Inl err \<Rightarrow> (Some (RetryableError err), w1)
      | Inr res \<Rightarrow>
          if StatusCode res \<ge> 500 then
            (Some (RetryableError (''error while fetching database: '' @ Body res)), w1)
          else if StatusCode res > 200 \<or> JSON200 res = None then
            (Some (NonRetryableError
               (''unexpected response fetching database: '' @ Body res)), w1)
          else
            (case JSON200 res of
               None \<Rightarrow>
                 (Some (NonRetryableError
                    (''unexpected response fetching database: '' @ Body res)), w1)
             | Some db \<Rightarrow>
                 if Status db = ERROR \<or> Status db = TERMINATED \<or> Status db = TERMINATING then
                   (Some (NonRetryableError
                      (''database failed to reach active status: status='' @ Status db)), w1)
                 else if Status db = ACTIVE then
                   dropKeyspaceStep env databaseID keyspaceName w1
                 else
                   (Some (RetryableError
                      (''expected database to be active but is '' @ Status db)), w1)))"

text \<open>
  \<^verbatim>\<open>retry.RetryContext(ctx, timeout, f)\<close> of the plugin SDK: \<open>f\<close> is called again while it
  returns a retryable error and the deadline has not passed; \<^verbatim>\<open>nil\<close> ends the wait with
  success, a non-retryable error ends it with that error, and at the deadline the last
  error of \<open>f\<close> is returned (a timeout error if \<open>f\<close> was never called). The deadline is
  wall-clock time; here it is the number of calls of \<open>f\<close> it leaves room for.
\<close>

fun RetryContext ::
  "nat \<Rightarrow> error option \<Rightarrow> (World \<Rightarrow> RetryError option \<times> World) \<Rightarrow> World \<Rightarrow> error option \<times> World" where
  "RetryContext 0 resultErr f w =
     (case resultErr of None \<Rightarrow> (Some ''timeout while waiting for state to become success'', w)
      | Some err \<Rightarrow> (Some err, w))"
| "RetryContext (Suc n) resultErr f w =
     (case f w of
        (None, w') \<Rightarrow> (None, w')
      | (Some (NonRetryableError err), w') \<Rightarrow> (Some err, w')
      | (Some (RetryableError err), w') \<Rightarrow> RetryContext n (Some err) f w')"

definition resourceKeyspaceCreate :: "Remote \<Rightarrow> nat \<Rightarrow> World \<Rightarrow> Diagnostics \<times> World" where
  "resourceKeyspaceCreate env timeout w =
     (let databaseID = ResourceData_Get (resourceData w) ''database_id'';
          keyspaceName = ResourceData_Get (resourceData w) ''name''
      in case RetryContext timeout None (keyspaceCreateAttempt env databaseID keyspaceName) w of
           (Some err, w') \<Rightarrow> (Some err, w')
         | (None, w') \<Rightarrow> (None, w'))"

definition resourceKeyspaceDelete :: "Remote \<Rightarrow> nat \<Rightarrow> World \<Rightarrow> Diagnostics \<times> World" where
  "resourceKeyspaceDelete env timeout w =
     (let databaseID = ResourceData_Get (resourceData w) ''database_id'';
          keyspaceName = ResourceData_Get (resourceData w) ''name''
      in case RetryContext timeout None (keyspaceDeleteAttempt env databaseID keyspaceName) w of
           (Some err, w') \<Rightarrow> (Some err, w')
         | (None, w') \<Rightarrow> (None, w'\<lparr>resourceData := ResourceData_SetId (resourceData w') []\<rparr>))"

section \<open>The CDC resource\<close>

definition GetPulsarCluster :: "string \<Rightarrow> string \<Rightarrow> string" where
  "GetPulsarCluster cloudProvider rawRegion =
     (let region = ReplaceAll_dash rawRegion
      in ToLower (''pulsar-'' @ cloudProvider @ ''-'' @ region))"

text \<open>\<open>getPulsarToken\<close> returns the token and an error, or panics: \<^verbatim>\<open>streamingTokens[0]\<close>
  is read with no check of the length.\<close>

definition getPulsarToken :: "Remote \<Rightarrow> World \<Rightarrow> (string \<times> error option) go \<times> World" where
  "getPulsarToken env w =
     (let w1 = w\<lparr>IdListTenantTokensWithResponse_calls :=
                    Suc (IdListTenantTokensWithResponse_calls w)\<rparr> in
      case IdListTenantTokensWithResponse env (IdListTenantTokensWithResponse_calls w) of
        Inl err \<Rightarrow> (Return ([], Some err), w1)
      | Inr body \<Rightarrow>
          (case Unmarshal_StreamingTokens env body of
             Inl err \<Rightarrow> (Return ([], Some err), w1)
           | Inr streamingTokens \<Rightarrow>
               (case streamingTokens of
                  [] \<Rightarrow> (Panic ''index out of range [0] with length 0'', w1)
                | t # _ \<Rightarrow>
                    (let w2 = w1\<lparr>GetTokenByIDWithResponse_calls :=
                                    Suc (GetTokenByIDWithResponse_calls w1)\<rparr> in
                     case GetTokenByIDWithResponse env (GetTokenByIDWithResponse_calls w1) of
                       Inl err \<Rightarrow> (Return ([], Some err), w2)
                     | Inr pulsarToken \<Rightarrow> (Return (pulsarToken, None), w2)))))"

text \<open>\<open>prepCDC\<close> returns the cluster, the token and an error, or panics (a \<^verbatim>\<open>nil\<close>
  \<open>CloudProvider\<close> or \<open>Region\<close>, or the panic of \<open>getPulsarToken\<close>).\<close>

definition prepCDC :: "Remote \<Rightarrow> World \<Rightarrow> (string \<times> string \<times> error option) go \<times> World" where
  "prepCDC env w =
     (let w1 = w\<lparr>getDatabase_calls := Suc (getDatabase_calls w)\<rparr> in
      case getDatabase env (getDatabase_calls w) of
        Inl err \<Rightarrow> (Return ([], [], Some err), w1)
      | Inr db \<Rightarrow>
          (case CloudProvider (Info db) of
             None \<Rightarrow> (Panic ''invalid memory address or nil pointer dereference'', w1)
           | Some cloudProvider \<Rightarrow>
               (case Region (Info db) of
                  None \<Rightarrow> (Panic ''invalid memory address or nil pointer dereference'', w1)
                | Some region \<Rightarrow>
                    (let pulsarCluster = GetPulsarCluster cloudProvider region in
                     case getPulsarToken env w1 of
                       (Panic p, w2) \<Rightarrow> (Panic p, w2)
                     | (Return (pulsarToken, err), w2) \<Rightarrow>
                         (Return (pulsarCluster, pulsarToken, err), w2)))))"

text \<open>The loop \<^verbatim>\<open>for i := 0; i < len(cdcResult); i++\<close> of \<open>resourceCDCRead\<close>: whether
  it reaches its \<^verbatim>\<open>return nil\<close>.\<close>

fun cdcListed :: "CDCEntry list \<Rightarrow> string \<Rightarrow> string \<Rightarrow> bool" where
  "cdcListed [] keyspace table = False"
| "cdcListed (e # es) keyspace table =
     (if Keyspace e = keyspace then
        (if DatabaseTable e = table then True else cdcListed es keyspace table)
      else cdcListed es keyspace table)"

text \<open>\<open>resourceCDCRead\<close>. The error of \<open>GetCurrentOrganization\<close> is dropped, so on a
  transport error the \<^verbatim>\<open>nil\<close> response is dereferenced; the errors of \<open>prepCDC\<close> and
  of \<open>GetCDC\<close> are turned into diagnostics that are thrown away, so the function goes
  on, and dereferences the \<^verbatim>\<open>nil\<close> response of a failed \<open>GetCDC\<close>.\<close>

definition resourceCDCRead :: "Remote \<Rightarrow> World \<Rightarrow> Diagnostics go \<times> World" where
  "resourceCDCRead env w =
     (case parseCDCID (ResourceId (resourceData w)) of
        Inl err \<Rightarrow> (Return (Some err), w)
      | Inr (databaseId, keyspace, table, tenantName) \<Rightarrow>
          (let w1 = w\<lparr>GetCurrentOrganization_calls := Suc (GetCurrentOrganization_calls w)\<rparr> in
           case GetCurrentOrganization env (GetCurrentOrganization_calls w) of
             Inl _ \<Rightarrow> (Panic ''invalid memory address or nil pointer dereference'', w1)
           | Inr orgBody \<Rightarrow>
               (case snd (HttpBody orgBody) of
                  Some err \<Rightarrow> (Return (Some err), w1)
                | None \<Rightarrow>
                    (case prepCDC env w1 of
                       (Panic p, w2) \<Rightarrow> (Panic p, w2)
                     | (Return _, w2) \<Rightarrow>
                         (let w3 = w2\<lparr>GetCDC_calls := Suc (GetCDC_calls w2)\<rparr> in
                          case GetCDC env (GetCDC_calls w2) of
                            Inl _ \<Rightarrow>
                              (Panic ''invalid memory address or nil pointer dereference'', w3)
                          | Inr getCDCResponse \<Rightarrow>
                              if \<not> HasPrefix (HttpStatus getCDCResponse) ''2'' then
                                (Return (Some (''Error getting cdc config ''
                                   @ fst (HttpBody getCDCResponse))), w3)
                              else
                                (let body = fst (HttpBody getCDCResponse);
                                     cdcResult = Unmarshal_CDCResult env body
                                 in if cdcListed cdcResult keyspace table then (Return None, w3)
                                    else
                                      (case cdcResult of
                                         [] \<Rightarrow> (Panic ''index out of range [0] with length 0'', w3)
                                       | e # _ \<Rightarrow>
                                           (case ResourceData_Set (resourceData w3)
                                                   ''connector_status'' (ConnectorStatus e) of
                                              (Some err, d1) \<Rightarrow>
                                                (Return (Some err), w3\<lparr>resourceData := d1\<rparr>)
                                            | (None, d1) \<Rightarrow>
                                                (case ResourceData_Set d1
                                                        ''data_topic'' (DataTopic e) of
                                                   (Some err, d2) \<Rightarrow>
                                                     (Return (Some err), w3\<lparr>resourceData := d2\<rparr>)
                                                 | (None, d2) \<Rightarrow>
                                                     (Return None,
                                                      w3\<lparr>resourceData :=
                                                           ResourceData_SetId d2 []\<rparr>))))))))))"

definition setCDCData :: "ResourceData \<Rightarrow> string \<Rightarrow> ResourceData" where
  "setCDCData d ident = ResourceData_SetId d ident"

text \<open>
  The first loop of \<open>resourceCDCCreate\<close>,
  \<^verbatim>\<open>for enableClientResult == nil || strings.HasPrefix(enableClientResult.Status, "401")\<close>.
  It ends with \<open>Inl err\<close> where the function returns a diagnostic from inside the loop
  and with \<open>Inr bodyBuffer\<close> where control leaves the loop (by \<^verbatim>\<open>break\<close> or by the loop
  condition), \<open>bodyBuffer\<close> being the buffer's value at that point.
\<close>

function enableLoop ::
  "Remote \<Rightarrow> HttpResponse option \<Rightarrow> int \<Rightarrow> string \<Rightarrow> World \<Rightarrow> (error + string) go \<times> World" where
  "enableLoop env enableClientResult retryCount bodyBuffer w =
     (if (case enableClientResult of None \<Rightarrow> True | Some r \<Rightarrow> HasPrefix (HttpStatus r) ''401'')
      then
        (let w1 = w\<lparr>EnableCDC_calls := Suc (EnableCDC_calls w)\<rparr> in
         case EnableCDC env (EnableCDC_calls w) of
           Inl err \<Rightarrow> (Return (Inl err), w1)
         | Inr r \<Rightarrow>
             if HasPrefix (HttpStatus r) ''2'' then (Return (Inr (fst (HttpBody r))), w1)
             else
               (let w2 = (if retryCount > 0
                          then w1\<lparr>Sleep_seconds := Sleep_seconds w1 + 20\<rparr> else w1)
                in if retryCount > 6 then
                     (Return (Inl (''Could not enable CDC with token: '' @ bodyBuffer)), w2)
                   else
                     (case prepCDC env w2 of
                        (Panic p, w3) \<Rightarrow> (Panic p, w3)
                      | (Return (_, _, Some err), w3) \<Rightarrow> (Return (Inl err), w3)
                      | (Return (_, _, None), w3) \<Rightarrow>
                          enableLoop env (Some r) (retryCount + 1) bodyBuffer w3)))
      else (Return (Inr bodyBuffer), w))"
  by pat_completeness auto
termination
  by (relation "measure (\<lambda>(env, enableClientResult, retryCount, bodyBuffer, w). nat (7 - retryCount))")
     auto

declare enableLoop.simps [simp del]

text \<open>
  The second loop of \<open>resourceCDCCreate\<close>, \<^verbatim>\<open>for cdcResult == nil || len(cdcResult) <= 0\<close>.
  \<open>retryCount\<close> is set to 0 before the loop and the loop body never assigns it. The loop
  need not end, so the function is partial: \<open>None\<close> is a run that never leaves the loop.
\<close>

partial_function (option) convergenceLoop ::
  "Remote \<Rightarrow> CDCEntry list \<Rightarrow> int \<Rightarrow> string \<Rightarrow> World \<Rightarrow> ((error + CDCEntry list) \<times> World) option" where
  "convergenceLoop env cdcResult retryCount bodyBuffer w =
     (if length cdcResult \<le> 0 then
        (let w1 = w\<lparr>GetCDC_calls := Suc (GetCDC_calls w)\<rparr> in
         case GetCDC env (GetCDC_calls w) of
           Inl err \<Rightarrow> Some (Inl err, w1)
         | Inr getCDCResponse \<Rightarrow>
             if \<not> HasPrefix (HttpStatus getCDCResponse) ''2'' then
               Some (Inl (''Error enabling client '' @ fst (HttpBody getCDCResponse)), w1)
             else
               (let bodyBuffer' = fst (HttpBody getCDCResponse);
                    cdcResult' = Unmarshal_CDCResult env bodyBuffer';
                    w2 = (if retryCount > 0
                          then w1\<lparr>Sleep_seconds := Sleep_seconds w1 + 20\<rparr> else w1)
                in if retryCount > 6 then
                     Some (Inl (''Could not enable CDC with token: '' @ bodyBuffer'), w2)
                   else convergenceLoop env cdcResult' retryCount bodyBuffer' w2))
      else Some (Inr cdcResult, w))"

declare convergenceLoop.simps [code]

text \<open>\<open>resourceCDCCreate\<close>: \<open>None\<close> when the run never returns.\<close>

definition resourceCDCCreate :: "Remote \<Rightarrow> World \<Rightarrow> (Diagnostics go \<times> World) option" where
  "resourceCDCCreate env w =
     (let table = ResourceData_Get (resourceData w) ''table'';
          keyspace = ResourceData_Get (resourceData w) ''keyspace'';
          databaseId = ResourceData_Get (resourceData w) ''database_id'';
          tenantName = ResourceData_Get (resourceData w) ''tenant_name'';
          w1 = w\<lparr>GetCurrentOrganization_calls := Suc (GetCurrentOrganization_calls w)\<rparr>
      in case GetCurrentOrganization env (GetCurrentOrganization_calls w) of
           Inl _ \<Rightarrow> Some (Panic ''invalid memory address or nil pointer dereference'', w1)
         | Inr orgBody \<Rightarrow>
             (case snd (HttpBody orgBody) of
                Some err \<Rightarrow> Some (Return (Some err), w1)
              | None \<Rightarrow>
                  (case prepCDC env w1 of
                     (Panic p, w2) \<Rightarrow> Some (Panic p, w2)
                   | (Return (_, _, Some err), w2) \<Rightarrow> Some (Return (Some err), w2)
                   | (Return (_, _, None), w2) \<Rightarrow>
                       (case enableLoop env None 0 (fst (HttpBody orgBody)) w2 of
                          (Panic p, w3) \<Rightarrow> Some (Panic p, w3)
                        | (Return (Inl err), w3) \<Rightarrow> Some (Return (Some err), w3)
                        | (Return (Inr bodyBuffer), w3) \<Rightarrow>
                            (case convergenceLoop env [] 0 bodyBuffer w3 of
                               None \<Rightarrow> None
                             | Some (Inl err, w4) \<Rightarrow> Some (Return (Some err), w4)
                             | Some (Inr cdcResult, w4) \<Rightarrow>
                                 (case cdcResult of
                                    [] \<Rightarrow> Some (Panic ''index out of range [0] with length 0'', w4)
                                  | e # _ \<Rightarrow>
                                      (case ResourceData_Set (resourceData w4)
                                              ''connector_status'' (ConnectorStatus e) of
                                         (Some err, d1) \<Rightarrow>
                                           Some (Return (Some err), w4\<lparr>resourceData := d1\<rparr>)
                                       | (None, d1) \<Rightarrow>
                                           (case ResourceData_Set d1 ''data_topic'' (DataTopic e) of
                                              (Some err, d2) \<Rightarrow>
                                                Some (Return (Some err), w4\<lparr>resourceData := d2\<rparr>)
                                            | (None, d2) \<Rightarrow>
                                                Some (Return None,
                                                      w4\<lparr>resourceData :=
                                                           setCDCData d2
                                                             (cdcID databaseId keyspace table
                                                                tenantName)\<rparr>)))))))))"

section \<open>Input validation\<close>

text \<open>\<open>validateKeyspace\<close> accepts the names matching
  \<^verbatim>\<open>^[a-zA-Z0-9][a-zA-Z0-9_]{0,48}$\<close>.\<close>

definition isAlnum :: "char \<Rightarrow> bool" where
  "isAlnum c =
     (let n = (of_char c :: nat)
      in (48 \<le> n \<and> n \<le> 57) \<or> (65 \<le> n \<and> n \<le> 90) \<or> (97 \<le> n \<and> n \<le> 122))"

definition validateKeyspace :: "string \<Rightarrow> bool" where
  "validateKeyspace keyspaceName =
     (case keyspaceName of
        [] \<Rightarrow> False
      | c # cs \<Rightarrow> isAlnum c \<and> length cs \<le> 48 \<and> list_all (\<lambda>x. isAlnum x \<or> x = CHR ''_'') cs)"

section \<open>Concrete runs\<close>

text \<open>A world in which no call has been made yet.\<close>

definition initialWorld :: "ResourceData \<Rightarrow> World" where
  "initialWorld d = \<lparr>resourceData = d,
     GetDatabaseWithResponse_calls = 0, AddKeyspaceWithResponse_calls = 0,
     DropKeyspaceWithResponse_calls = 0, GetCurrentOrganization_calls = 0,
     getDatabase_calls = 0, IdListTenantTokensWithResponse_calls = 0,
     GetTokenByIDWithResponse_calls = 0, EnableCDC_calls = 0, GetCDC_calls = 0,
     Sleep_seconds = 0\<rparr>"

text \<open>A remote side whose every endpoint fails at the transport level.\<close>

definition unreachableRemote :: Remote where
  "unreachableRemote = \<lparr>
     GetDatabaseWithResponse = (\<lambda>_. Inl ''connection refused''),
     AddKeyspaceWithResponse = (\<lambda>_. Inl ''connection refused''),
     DropKeyspaceWithResponse = (\<lambda>_. Inl ''connection refused''),
     GetCurrentOrganization = (\<lambda>_. Inl ''connection refused''),
     getDatabase = (\<lambda>_. Inl ''connection refused''),
     IdListTenantTokensWithResponse = (\<lambda>_. Inl ''connection refused''),
     GetTokenByIDWithResponse = (\<lambda>_. Inl ''connection refused''),
     EnableCDC = (\<lambda>_. Inl ''connection refused''),
     GetCDC = (\<lambda>_. Inl ''connection refused''),
     Unmarshal_StreamingTokens = (\<lambda>_. Inl ''unexpected end of JSON input''),
     Unmarshal_CDCResult = (\<lambda>_. [])\<rparr>"

text \<open>The resource data of a keyspace and of a CDC resource before their creation.\<close>

definition keyspaceData :: ResourceData where
  "keyspaceData = \<lparr>SchemaKeys = resourceKeyspace_Schema, ResourceId = [],
     Attrs = [''name'' \<mapsto> ''ks1'', ''database_id'' \<mapsto> ''db-1'']\<rparr>"

definition cdcData :: ResourceData where
  "cdcData = \<lparr>SchemaKeys = resourceCDC_Schema, ResourceId = [],
     Attrs = [''table'' \<mapsto> ''tbl'', ''keyspace'' \<mapsto> ''ks'', ''database_id'' \<mapsto> ''db-1'',
              ''tenant_name'' \<mapsto> ''tenant'']\<rparr>"

text \<open>Remote sides for the keyspace operations: the database is read with status code
  200 and the given status, or the read is answered with the given status code and no
  decoded body; every other endpoint is unreachable.\<close>

definition databaseReply :: "StatusEnum \<Rightarrow> Database ClientResponse" where
  "databaseReply status = \<lparr>StatusCode = 200, Body = ''database'',
     JSON200 = Some \<lparr>Status = status,
       Info = \<lparr>CloudProvider = Some ''GCP'', Region = Some ''us-east1''\<rparr>\<rparr>\<rparr>"

definition databaseRemote :: "StatusEnum \<Rightarrow> Remote" where
  "databaseRemote status =
     unreachableRemote\<lparr>GetDatabaseWithResponse := (\<lambda>_. Inr (databaseReply status))\<rparr>"

definition statusCodeRemote :: "int \<Rightarrow> Remote" where
  "statusCodeRemote code =
     unreachableRemote\<lparr>GetDatabaseWithResponse :=
       (\<lambda>_. Inr \<lparr>StatusCode = code, Body = ''failure'', JSON200 = None\<rparr>)\<rparr>"

text \<open>Remote sides for the CDC operations. On \<open>credentialsRemote\<close> the organization is
  read and the credentials resolve on every call; the others add the replies of the CDC
  endpoints.\<close>

definition credentialsRemote :: Remote where
  "credentialsRemote = unreachableRemote\<lparr>
     GetCurrentOrganization := (\<lambda>_. Inr \<lparr>HttpStatus = ''200 OK'', HttpBody = (''org'', None)\<rparr>),
     getDatabase := (\<lambda>_. Inr \<lparr>Status = ACTIVE,
        Info = \<lparr>CloudProvider = Some ''GCP'', Region = Some ''us-east1''\<rparr>\<rparr>),
     IdListTenantTokensWithResponse := (\<lambda>_. Inr ''tokens''),
     Unmarshal_StreamingTokens := (\<lambda>_. Inr [\<lparr>Tokenid = ''t1''\<rparr>]),
     GetTokenByIDWithResponse := (\<lambda>_. Inr ''secret'')\<rparr>"

text \<open>The tenant has no token: the listing succeeds and decodes to the empty list.\<close>

definition noTokensRemote :: Remote where
  "noTokensRemote = credentialsRemote\<lparr>Unmarshal_StreamingTokens := (\<lambda>_. Inr [])\<rparr>"

text \<open>Every \<open>EnableCDC\<close> call is answered with 401.\<close>

definition staleRemote :: Remote where
  "staleRemote = credentialsRemote\<lparr>
     EnableCDC := (\<lambda>_. Inr \<lparr>HttpStatus = ''401 Unauthorized'', HttpBody = ([], None)\<rparr>)\<rparr>"

text \<open>Every \<open>GetCDC\<close> call succeeds with the given listing.\<close>

definition listingRemote :: "CDCEntry list \<Rightarrow> Remote" where
  "listingRemote entries = credentialsRemote\<lparr>
     GetCDC := (\<lambda>_. Inr \<lparr>HttpStatus = ''200 OK'', HttpBody = (''listing'', None)\<rparr>),
     Unmarshal_CDCResult := (\<lambda>_. entries)\<rparr>"

text \<open>\<open>EnableCDC\<close> is accepted, and the listing stays empty.\<close>

definition emptyListingRemote :: Remote where
  "emptyListingRemote = (listingRemote [])\<lparr>
     EnableCDC := (\<lambda>_. Inr \<lparr>HttpStatus = ''200 OK'', HttpBody = (''enabled'', None)\<rparr>)\<rparr>"

text \<open>A CDC entry of the tenant for another table.\<close>

definition otherEntry :: CDCEntry where
  "otherEntry = \<lparr>Keyspace = ''ks'', DatabaseTable = ''other'',
     ConnectorStatus = ''running'', DataTopic = ''topic''\<rparr>"

text \<open>\<open>EnableCDC\<close> is rejected with the given status line, while the listing holds the
  entry of the other table.\<close>

definition rejectingRemote :: "string \<Rightarrow> Remote" where
  "rejectingRemote status = (listingRemote [otherEntry])\<lparr>
     EnableCDC := (\<lambda>_. Inr \<lparr>HttpStatus = status, HttpBody = ([], None)\<rparr>)\<rparr>"

text \<open>The resource data of a CDC resource that has been created.\<close>

definition cdcStoredData :: ResourceData where
  "cdcStoredData = cdcData\<lparr>ResourceId := ''db-1/ks/tbl/tenant''\<rparr>"

text \<open>Only the organization can be read; the database lookup of \<open>prepCDC\<close> fails.\<close>

definition orgOnlyRemote :: Remote where
  "orgOnlyRemote = unreachableRemote\<lparr>
     GetCurrentOrganization := (\<lambda>_. Inr \<lparr>HttpStatus = ''200 OK'', HttpBody = (''org'', None)\<rparr>)\<rparr>"

text \<open>A CDC entry for the table of \<open>cdcStoredData\<close>.\<close>

definition ownEntry :: CDCEntry where
  "ownEntry = \<lparr>Keyspace = ''ks'', DatabaseTable = ''tbl'',
     ConnectorStatus = ''paused'', DataTopic = ''own-topic''\<rparr>"

section \<open>Properties of the string functions and of the identity codec\<close>

lemma toLowerByte_slash: "toLowerByte c = CHR ''/'' \<longleftrightarrow> c = CHR ''/''"
proof (cases "(65::nat) \<le> of_char c \<and> of_char c \<le> (90::nat)")
  case True
  have "char_of (of_char c + (32::nat)) \<noteq> CHR ''/''"
  proof
    assume "char_of (of_char c + (32::nat)) = CHR ''/''"
    then have "(of_char (char_of (of_char c + (32::nat))) :: nat) = of_char CHR ''/''"
      by simp
    then have "(of_char c + 32) mod 256 = (47::nat)"
      by (simp add: of_char_of)
    with True show False by simp
  qed
  moreover from True have "c \<noteq> CHR ''/''" by auto
  moreover from True have "toLowerByte c = char_of (of_char c + (32::nat))"
    by (simp add: toLowerByte_def)
  ultimately show ?thesis by simp
next
  case False
  then have "toLowerByte c = c" by (auto simp: toLowerByte_def)
  then show ?thesis by simp
qed

lemma slash_toLowerByte: "CHR ''/'' = toLowerByte c \<longleftrightarrow> CHR ''/'' = c"
  using toLowerByte_slash [of c] by auto

lemma ToLower_Nil: "ToLower [] = []"
  by (simp add: ToLower_def)

lemma ToLower_Cons: "ToLower (x # xs) = toLowerByte x # ToLower xs"
  by (simp add: ToLower_def)

lemma toLowerByte_slash_self: "toLowerByte CHR ''/'' = CHR ''/''"
  by (simp add: toLowerByte_slash)

lemma Index_skip:
  "sep \<noteq> [] \<Longrightarrow> hd sep \<notin> set a \<Longrightarrow> Index (a @ sep @ b) sep = Some (length a)"
proof (induction a)
  case Nil
  then show ?case by (cases sep) (simp_all add: HasPrefix_def)
next
  case (Cons x a)
  then have "\<not> HasPrefix ((x # a) @ sep @ b) sep"
    by (cases sep) (auto simp: HasPrefix_def)
  with Cons show ?case by simp
qed

lemma Index_absent: "sep \<noteq> [] \<Longrightarrow> hd sep \<notin> set s \<Longrightarrow> Index s sep = None"
proof (induction s)
  case Nil
  then show ?case by simp
next
  case (Cons x s)
  then have "\<not> HasPrefix (x # s) sep"
    by (cases sep) (auto simp: HasPrefix_def)
  with Cons show ?case by simp
qed

lemma Split_absent: "sep \<noteq> [] \<Longrightarrow> hd sep \<notin> set s \<Longrightarrow> Split s sep = [s]"
  by (subst Split.simps) (simp add: Index_absent)

lemma Split_skip:
  "sep \<noteq> [] \<Longrightarrow> hd sep \<notin> set a \<Longrightarrow> Split (a @ sep @ b) sep = a # Split b sep"
  by (subst Split.simps) (simp add: Index_skip)

lemma Index_char_None: "Index s [c] = None \<longleftrightarrow> c \<notin> set s"
  by (induction s) (auto simp: HasPrefix_def)

lemma Index_char_Some:
  "Index s [c] = Some m \<Longrightarrow> count_list s c = Suc (count_list (drop (Suc m) s) c)"
proof (induction s arbitrary: m)
  case Nil
  then show ?case by simp
next
  case (Cons x s)
  show ?case
  proof (cases "x = c")
    case True
    with Cons.prems show ?thesis by (simp add: HasPrefix_def)
  next
    case False
    with Cons.prems obtain k where "Index s [c] = Some k" and "m = Suc k"
      by (auto simp: HasPrefix_def)
    with Cons.IH False show ?thesis by simp
  qed
qed

lemma length_Split_char: "length (Split s [c]) = Suc (count_list s c)"
proof (induction s "[c]" rule: Split.induct)
  case (1 s)
  show ?case
  proof (cases "Index s [c]")
    case None
    then have "c \<notin> set s" by (simp add: Index_char_None)
    then have "count_list s c = 0" by (simp add: count_list_0_iff)
    with None show ?thesis by (subst Split.simps) simp
  next
    case (Some m)
    with 1 have "length (Split (drop (m + length [c]) s) [c])
        = Suc (count_list (drop (m + length [c]) s) c)"
      by simp
    with Some Index_char_Some [OF Some] show ?thesis
      by (subst Split.simps) simp
  qed
qed

lemma count_list_ToLower_slash: "count_list (ToLower s) CHR ''/'' = count_list s CHR ''/''"
  by (induction s) (auto simp: ToLower_def toLowerByte_slash)

lemma length_Split_ToLower:
  "length (Split (ToLower s) ''/'') = length (Split s ''/'')"
  by (simp add: length_Split_char count_list_ToLower_slash)

lemma ToLower_append: "ToLower (a @ b) = ToLower a @ ToLower b"
  by (simp add: ToLower_def)

lemma ToLower_slash: "ToLower ''/'' = ''/''"
  by (simp add: ToLower_def toLowerByte_slash_self)

lemma slash_ToLower: "CHR ''/'' \<in> set (ToLower s) \<longleftrightarrow> CHR ''/'' \<in> set s"
  by (induction s) (simp_all add: ToLower_Nil ToLower_Cons slash_toLowerByte)

lemma parseKeyspaceID_keyspaceID:
  assumes "CHR ''/'' \<notin> set databaseID" and "CHR ''/'' \<notin> set keyspaceName"
  shows "parseKeyspaceID (keyspaceID databaseID keyspaceName) = Inr (databaseID, keyspaceName)"
proof -
  have "Split (databaseID @ ''/keyspace/'' @ keyspaceName) ''/keyspace/''
      = databaseID # Split keyspaceName ''/keyspace/''"
    using assms(1) by (intro Split_skip) simp_all
  moreover have "Split keyspaceName ''/keyspace/'' = [keyspaceName]"
    using assms(2) by (intro Split_absent) simp_all
  ultimately show ?thesis
    by (simp add: parseKeyspaceID_def keyspaceID_def)
qed

lemma Split_four:
  assumes "CHR ''/'' \<notin> set a" "CHR ''/'' \<notin> set b" "CHR ''/'' \<notin> set c" "CHR ''/'' \<notin> set d"
  shows "Split (a @ ''/'' @ b @ ''/'' @ c @ ''/'' @ d) ''/'' = [a, b, c, d]"
proof -
  have "Split d ''/'' = [d]"
    using assms(4) by (intro Split_absent) simp_all
  moreover have "Split (c @ ''/'' @ d) ''/'' = c # Split d ''/''"
    using assms(3) by (intro Split_skip) simp_all
  moreover have "Split (b @ ''/'' @ c @ ''/'' @ d) ''/'' = b # Split (c @ ''/'' @ d) ''/''"
    using assms(2) by (intro Split_skip) simp_all
  moreover have "Split (a @ ''/'' @ b @ ''/'' @ c @ ''/'' @ d) ''/''
      = a # Split (b @ ''/'' @ c @ ''/'' @ d) ''/''"
    using assms(1) by (intro Split_skip) simp_all
  ultimately show ?thesis by simp
qed

lemma parseCDCID_cdcID:
  assumes "CHR ''/'' \<notin> set a" "CHR ''/'' \<notin> set b" "CHR ''/'' \<notin> set c" "CHR ''/'' \<notin> set d"
  shows "parseCDCID (cdcID a b c d) = Inr (ToLower a, ToLower b, ToLower c, ToLower d)"
proof -
  have "ToLower (cdcID a b c d)
      = ToLower a @ ''/'' @ ToLower b @ ''/'' @ ToLower c @ ''/'' @ ToLower d"
    by (simp add: cdcID_def ToLower_append ToLower_Cons toLowerByte_slash_self)
  moreover have "Split (ToLower a @ ''/'' @ ToLower b @ ''/'' @ ToLower c @ ''/'' @ ToLower d) ''/''
      = [ToLower a, ToLower b, ToLower c, ToLower d]"
    using assms by (intro Split_four) (simp_all add: slash_ToLower)
  ultimately show ?thesis
    by (simp add: parseCDCID_def)
qed


text \<open>
  C5 (as amended). For fields that contain no \<open>/\<close>, decoding the keyspace id built by
  \<open>setKeyspaceResourceData\<close> gives back the database id and the keyspace name, and
  decoding the CDC id built on create gives back the four fields in lower case, since
  \<open>parseCDCID\<close> lower-cases the id before it splits it.
\<close>

theorem identity_roundtrip:
  assumes "CHR ''/'' \<notin> set databaseID" and "CHR ''/'' \<notin> set keyspace"
      and "CHR ''/'' \<notin> set table" and "CHR ''/'' \<notin> set tenantName"
  shows "parseKeyspaceID (keyspaceID databaseID keyspace) = Inr (databaseID, keyspace) \<and>
         parseCDCID (cdcID databaseID keyspace table tenantName)
           = Inr (ToLower databaseID, ToLower keyspace, ToLower table, ToLower tenantName)"
  using assms by (simp add: parseKeyspaceID_keyspaceID parseCDCID_cdcID)

theorem identity_roundtrip_witness:
  "CHR ''/'' \<notin> set ''db-1'' \<and> CHR ''/'' \<notin> set ''Ks1'' \<and> CHR ''/'' \<notin> set ''Orders''
   \<and> CHR ''/'' \<notin> set ''tenant''
   \<and> parseKeyspaceID (keyspaceID ''db-1'' ''Ks1'') = Inr (''db-1'', ''Ks1'')
   \<and> parseCDCID (cdcID ''db-1'' ''Ks1'' ''Orders'' ''tenant'')
       = Inr (''db-1'', ''ks1'', ''orders'', ''tenant'')"
proof -
  have h: "CHR ''/'' \<notin> set ''db-1''" "CHR ''/'' \<notin> set ''Ks1''"
    "CHR ''/'' \<notin> set ''Orders''" "CHR ''/'' \<notin> set ''tenant''"
    by simp_all
  have l: "ToLower ''db-1'' = ''db-1''" "ToLower ''Ks1'' = ''ks1''"
    "ToLower ''Orders'' = ''orders''" "ToLower ''tenant'' = ''tenant''"
    by code_simp+
  show ?thesis
    using identity_roundtrip [OF h] h l by simp
qed

text \<open>
  C5 as stated fails: the keyspace name \<open>Ks1\<close> passes \<open>validateKeyspace\<close>, and the
  CDC id built from it does not decode to the fields it was built from. A table name
  with a \<open>/\<close> in it, which the schema of the table attribute admits, gives an id that
  does not decode at all.
\<close>

theorem identity_roundtrip_counterexample:
  "validateKeyspace ''Ks1'' \<and>
   parseCDCID (cdcID ''db-1'' ''Ks1'' ''Orders'' ''tenant'')
     \<noteq> Inr (''db-1'', ''Ks1'', ''Orders'', ''tenant'') \<and>
   parseCDCID (cdcID ''db-1'' ''ks1'' ''a/b'' ''tenant'')
     = Inl ''invalid role id format: expected databaseId/keyspace/table/tenantName''"
  by code_simp

text \<open>
  C6. An id whose split on \<open>/keyspace/\<close> does not give two segments is rejected by
  \<open>parseKeyspaceID\<close>, and an id whose split on \<open>/\<close> does not give four segments is
  rejected by \<open>parseCDCID\<close>; the result is the error alone, with no field values.
\<close>

theorem decode_wrong_arity:
  "(length (Split ident ''/keyspace/'') \<noteq> 2 \<longrightarrow>
      parseKeyspaceID ident = Inl ''invalid keyspace id format: expected database_id/keyspace'')
   \<and> (length (Split ident ''/'') \<noteq> 4 \<longrightarrow>
      parseCDCID ident
        = Inl ''invalid role id format: expected databaseId/keyspace/table/tenantName'')"
  by (simp add: parseKeyspaceID_def parseCDCID_def length_Split_ToLower Let_def)

theorem decode_wrong_arity_witness:
  "length (Split ''db-1/ks1'' ''/keyspace/'') \<noteq> 2
   \<and> parseKeyspaceID ''db-1/ks1'' = Inl ''invalid keyspace id format: expected database_id/keyspace''
   \<and> length (Split ''db-1/ks/tbl/tenant/extra'' ''/'') \<noteq> 4
   \<and> parseCDCID ''db-1/ks/tbl/tenant/extra''
        = Inl ''invalid role id format: expected databaseId/keyspace/table/tenantName''"
proof -
  have a: "length (Split ''db-1/ks1'' ''/keyspace/'') \<noteq> 2"
    by code_simp
  have b: "length (Split ''db-1/ks/tbl/tenant/extra'' ''/'') \<noteq> 4"
    by code_simp
  from a b show ?thesis
    using decode_wrong_arity [of "''db-1/ks1''"]
      decode_wrong_arity [of "''db-1/ks/tbl/tenant/extra''"]
    by blast
qed

section \<open>The keyspace operations\<close>

lemma status_constants_distinct:
  "ACTIVE \<noteq> ERROR" "ACTIVE \<noteq> TERMINATED" "ACTIVE \<noteq> TERMINATING"
  by (simp_all add: ACTIVE_def ERROR_def TERMINATED_def TERMINATING_def)

text \<open>
  C1. One attempt of the keyspace create or delete closure classifies the reply to its
  read of the database in this order: a transport error is retried; a status code of
  500 or more is retried; a status code above 200 or a missing decoded body is a
  non-retryable failure; a status of \<open>ERROR\<close>, \<open>TERMINATED\<close> or \<open>TERMINATING\<close> is a
  non-retryable failure; with status \<open>ACTIVE\<close> the attempt proceeds to the mutation;
  every other status is retried. Except in the \<open>ACTIVE\<close> case the attempt does nothing
  but count the read.
\<close>

theorem poll_classification:
  assumes which: "(attempt, step) = (keyspaceCreateAttempt, addKeyspaceStep)
                \<or> (attempt, step) = (keyspaceDeleteAttempt, dropKeyspaceStep)"
      and w1: "w1 = w\<lparr>GetDatabaseWithResponse_calls := Suc (GetDatabaseWithResponse_calls w)\<rparr>"
      and reply: "reply = GetDatabaseWithResponse env (GetDatabaseWithResponse_calls w)"
  shows
    "(\<forall>err. reply = Inl err \<longrightarrow>
        attempt env databaseID keyspaceName w = (Some (RetryableError err), w1))
   \<and> (\<forall>res. reply = Inr res \<and> 500 \<le> StatusCode res \<longrightarrow>
        attempt env databaseID keyspaceName w
          = (Some (RetryableError (''error while fetching database: '' @ Body res)), w1))
   \<and> (\<forall>res. reply = Inr res \<and> StatusCode res < 500
          \<and> (200 < StatusCode res \<or> JSON200 res = None) \<longrightarrow>
        attempt env databaseID keyspaceName w
          = (Some (NonRetryableError
               (''unexpected response fetching database: '' @ Body res)), w1))
   \<and> (\<forall>res db. reply = Inr res \<and> StatusCode res \<le> 200 \<and> JSON200 res = Some db
          \<and> Status db \<in> {ERROR, TERMINATED, TERMINATING} \<longrightarrow>
        attempt env databaseID keyspaceName w
          = (Some (NonRetryableError
               (''database failed to reach active status: status='' @ Status db)), w1))
   \<and> (\<forall>res db. reply = Inr res \<and> StatusCode res \<le> 200 \<and> JSON200 res = Some db
          \<and> Status db = ACTIVE \<longrightarrow>
        attempt env databaseID keyspaceName w = step env databaseID keyspaceName w1)
   \<and> (\<forall>res db. reply = Inr res \<and> StatusCode res \<le> 200 \<and> JSON200 res = Some db
          \<and> Status db \<notin> {ACTIVE, ERROR, TERMINATED, TERMINATING} \<longrightarrow>
        attempt env databaseID keyspaceName w
          = (Some (RetryableError
               (''expected database to be active but is '' @ Status db)), w1))"
proof -
  from which consider
      (create) "attempt = keyspaceCreateAttempt" "step = addKeyspaceStep"
    | (delete) "attempt = keyspaceDeleteAttempt" "step = dropKeyspaceStep"
    by auto
  then show ?thesis
  proof cases
    case create
    show ?thesis
      unfolding create w1 reply keyspaceCreateAttempt_def Let_def
      using status_constants_distinct by auto
  next
    case delete
    show ?thesis
      unfolding delete w1 reply keyspaceDeleteAttempt_def Let_def
      using status_constants_distinct by auto
  qed
qed

lemma initialWorld_calls [simp]:
  "GetDatabaseWithResponse_calls (initialWorld d) = 0"
  "AddKeyspaceWithResponse_calls (initialWorld d) = 0"
  "DropKeyspaceWithResponse_calls (initialWorld d) = 0"
  "GetCurrentOrganization_calls (initialWorld d) = 0"
  "getDatabase_calls (initialWorld d) = 0"
  "IdListTenantTokensWithResponse_calls (initialWorld d) = 0"
  "GetTokenByIDWithResponse_calls (initialWorld d) = 0"
  "EnableCDC_calls (initialWorld d) = 0"
  "GetCDC_calls (initialWorld d) = 0"
  "Sleep_seconds (initialWorld d) = 0"
  "resourceData (initialWorld d) = d"
  by (simp_all add: initialWorld_def)

theorem poll_classification_witness:
  "keyspaceCreateAttempt unreachableRemote ''db-1'' ''ks1'' (initialWorld keyspaceData)
     = (Some (RetryableError ''connection refused''),
        (initialWorld keyspaceData)\<lparr>GetDatabaseWithResponse_calls := 1\<rparr>)
   \<and> keyspaceCreateAttempt (statusCodeRemote 503) ''db-1'' ''ks1'' (initialWorld keyspaceData)
     = (Some (RetryableError ''error while fetching database: failure''),
        (initialWorld keyspaceData)\<lparr>GetDatabaseWithResponse_calls := 1\<rparr>)
   \<and> keyspaceCreateAttempt (statusCodeRemote 404) ''db-1'' ''ks1'' (initialWorld keyspaceData)
     = (Some (NonRetryableError ''unexpected response fetching database: failure''),
        (initialWorld keyspaceData)\<lparr>GetDatabaseWithResponse_calls := 1\<rparr>)
   \<and> keyspaceDeleteAttempt (databaseRemote TERMINATED) ''db-1'' ''ks1'' (initialWorld keyspaceData)
     = (Some (NonRetryableError ''database failed to reach active status: status=TERMINATED''),
        (initialWorld keyspaceData)\<lparr>GetDatabaseWithResponse_calls := 1\<rparr>)
   \<and> keyspaceCreateAttempt (databaseRemote ACTIVE) ''db-1'' ''ks1'' (initialWorld keyspaceData)
     = addKeyspaceStep (databaseRemote ACTIVE) ''db-1'' ''ks1''
         ((initialWorld keyspaceData)\<lparr>GetDatabaseWithResponse_calls := 1\<rparr>)
   \<and> keyspaceCreateAttempt (databaseRemote ''INITIALIZING'') ''db-1'' ''ks1''
         (initialWorld keyspaceData)
     = (Some (RetryableError ''expected database to be active but is INITIALIZING''),
        (initialWorld keyspaceData)\<lparr>GetDatabaseWithResponse_calls := 1\<rparr>)"
proof -
  let ?w = "initialWorld keyspaceData"
  let ?w1 = "?w\<lparr>GetDatabaseWithResponse_calls := Suc (GetDatabaseWithResponse_calls ?w)\<rparr>"
  note create = poll_classification [of keyspaceCreateAttempt addKeyspaceStep ?w1 ?w,
      OF _ refl refl, simplified]
  note delete = poll_classification [of keyspaceDeleteAttempt dropKeyspaceStep ?w1 ?w,
      OF _ refl refl, simplified]
  have 1: "GetDatabaseWithResponse unreachableRemote 0 = Inl ''connection refused''"
    by (simp add: unreachableRemote_def)
  have 2: "GetDatabaseWithResponse (statusCodeRemote c) 0
      = Inr \<lparr>StatusCode = c, Body = ''failure'', JSON200 = None\<rparr>" for c
    by (simp add: statusCodeRemote_def)
  have 3: "GetDatabaseWithResponse (databaseRemote s) 0 = Inr (databaseReply s)" for s
    by (simp add: databaseRemote_def)
  have 4: "StatusCode (databaseReply s) = 200" "Body (databaseReply s) = ''database''"
    "JSON200 (databaseReply s) = Some \<lparr>Status = s,
       Info = \<lparr>CloudProvider = Some ''GCP'', Region = Some ''us-east1''\<rparr>\<rparr>" for s
    by (simp_all add: databaseReply_def)
  have 5: "''INITIALIZING'' \<notin> {ACTIVE, ERROR, TERMINATED, TERMINATING}"
    by (simp add: ACTIVE_def ERROR_def TERMINATED_def TERMINATING_def)
  show ?thesis
    using create [of unreachableRemote] create [of "statusCodeRemote 503"]
      create [of "statusCodeRemote 404"] delete [of "databaseRemote TERMINATED"]
      create [of "databaseRemote ACTIVE"] create [of "databaseRemote ''INITIALIZING''"]
      1 2 3 4 5
    by (simp add: TERMINATED_def)
qed

text \<open>The reply to the keyspace mutation: a transport error and every status code of 400
  or more other than 409 end the attempt with a non-retryable error, 409 is retried.\<close>

lemma keyspace_mutation_classification:
  assumes which: "(step, reply) = (addKeyspaceStep env databaseID keyspaceName w,
                                   AddKeyspaceWithResponse env (AddKeyspaceWithResponse_calls w))
                \<or> (step, reply) = (dropKeyspaceStep env databaseID keyspaceName w,
                                   DropKeyspaceWithResponse env (DropKeyspaceWithResponse_calls w))"
  shows "(\<forall>err. reply = Inl err \<longrightarrow> (\<exists>msg. fst step = Some (NonRetryableError msg)))
       \<and> (\<forall>resp. reply = Inr resp \<and> StatusCode resp = 409 \<longrightarrow>
            (\<exists>msg. fst step = Some (RetryableError msg)))
       \<and> (\<forall>resp. reply = Inr resp \<and> StatusCode resp \<ge> 400 \<and> StatusCode resp \<noteq> 409 \<longrightarrow>
            (\<exists>msg. fst step = Some (NonRetryableError msg)))"
  using which
  by (auto simp: addKeyspaceStep_def dropKeyspaceStep_def Let_def split: sum.splits)

lemma setKeyspaceResourceData_ok:
  assumes "set resourceKeyspace_Schema \<subseteq> set (SchemaKeys d)"
  shows "setKeyspaceResourceData d databaseID keyspaceName
     = (None, d\<lparr>ResourceId := keyspaceID databaseID keyspaceName,
                Attrs := (Attrs d)(''name'' \<mapsto> keyspaceName, ''database_id'' \<mapsto> databaseID)\<rparr>)"
  using assms
  by (simp add: setKeyspaceResourceData_def ResourceData_Set_def ResourceData_SetId_def
      resourceKeyspace_Schema_def)

lemma addKeyspaceStep_failure:
  assumes "set resourceKeyspace_Schema \<subseteq> set (SchemaKeys (resourceData w))"
      and "addKeyspaceStep env databaseID keyspaceName w = (Some e, w')"
  shows "resourceData w' = resourceData w"
  using assms
  by (auto simp: addKeyspaceStep_def Let_def setKeyspaceResourceData_ok
      split: sum.splits if_splits)

lemma keyspaceCreateAttempt_failure:
  assumes "set resourceKeyspace_Schema \<subseteq> set (SchemaKeys (resourceData w))"
      and "keyspaceCreateAttempt env databaseID keyspaceName w = (Some e, w')"
  shows "resourceData w' = resourceData w"
proof -
  let ?w1 = "w\<lparr>GetDatabaseWithResponse_calls := Suc (GetDatabaseWithResponse_calls w)\<rparr>"
  have "w' = ?w1 \<or> addKeyspaceStep env databaseID keyspaceName ?w1 = (Some e, w')"
    using assms(2)
    by (auto simp: keyspaceCreateAttempt_def Let_def split: sum.splits if_splits option.splits)
  then show ?thesis
  proof
    assume "w' = ?w1"
    then show ?thesis by simp
  next
    assume "addKeyspaceStep env databaseID keyspaceName ?w1 = (Some e, w')"
    with assms(1) addKeyspaceStep_failure [of ?w1 env databaseID keyspaceName e w']
    show ?thesis by simp
  qed
qed

lemma RetryContext_keyspaceCreate_failure:
  assumes "set resourceKeyspace_Schema \<subseteq> set (SchemaKeys (resourceData w))"
      and "RetryContext n resultErr (keyspaceCreateAttempt env databaseID keyspaceName) w
             = (Some err, w')"
  shows "resourceData w' = resourceData w"
  using assms
proof (induction n arbitrary: resultErr w)
  case 0
  then show ?case by (auto split: option.splits)
next
  case (Suc n)
  obtain r w1 where step: "keyspaceCreateAttempt env databaseID keyspaceName w = (r, w1)"
    by (cases "keyspaceCreateAttempt env databaseID keyspaceName w")
  show ?case
  proof (cases r)
    case None
    with Suc.prems(2) step show ?thesis by simp
  next
    case (Some e)
    with step Suc.prems(1) have same: "resourceData w1 = resourceData w"
      by (auto dest: keyspaceCreateAttempt_failure)
    show ?thesis
    proof (cases e)
      case (RetryableError m)
      with Suc.prems(2) step Some
      have "RetryContext n (Some m) (keyspaceCreateAttempt env databaseID keyspaceName) w1
              = (Some err, w')"
        by simp
      with Suc.IH [of w1 "Some m"] Suc.prems(1) same show ?thesis by simp
    next
      case (NonRetryableError m)
      with Suc.prems(2) step Some same show ?thesis by simp
    qed
  qed
qed

lemma resourceKeyspaceCreate_failure:
  assumes "set resourceKeyspace_Schema \<subseteq> set (SchemaKeys (resourceData w))"
      and "resourceKeyspaceCreate env timeout w = (Some err, w')"
  shows "resourceData w' = resourceData w"
proof -
  let ?f = "keyspaceCreateAttempt env (ResourceData_Get (resourceData w) ''database_id'')
              (ResourceData_Get (resourceData w) ''name'')"
  from assms(2) have "RetryContext timeout None ?f w = (Some err, w')"
    by (auto simp: resourceKeyspaceCreate_def Let_def split: prod.splits option.splits)
  with assms(1) show ?thesis
    by (rule RetryContext_keyspaceCreate_failure)
qed

text \<open>
  C7. When the first read of the database succeeds and reports \<open>ERROR\<close>, \<open>TERMINATED\<close>
  or \<open>TERMINATING\<close>, keyspace create and keyspace delete fail at once with the error of
  the terminal status: the only call made is that one read, so neither \<open>AddKeyspace\<close> nor
  \<open>DropKeyspace\<close> is called and the resource data is untouched.
\<close>

theorem parent_terminal_fails_immediately:
  assumes timeout: "0 < timeout"
      and reply: "GetDatabaseWithResponse env (GetDatabaseWithResponse_calls w) = Inr res"
      and code: "StatusCode res \<le> 200"
      and body: "JSON200 res = Some db"
      and terminal: "Status db \<in> {ERROR, TERMINATED, TERMINATING}"
  shows "resourceKeyspaceCreate env timeout w
           = (Some (''database failed to reach active status: status='' @ Status db),
              w\<lparr>GetDatabaseWithResponse_calls := Suc (GetDatabaseWithResponse_calls w)\<rparr>)
       \<and> resourceKeyspaceDelete env timeout w
           = (Some (''database failed to reach active status: status='' @ Status db),
              w\<lparr>GetDatabaseWithResponse_calls := Suc (GetDatabaseWithResponse_calls w)\<rparr>)"
proof -
  obtain n where n: "timeout = Suc n"
    using timeout by (cases timeout) auto
  let ?w1 = "w\<lparr>GetDatabaseWithResponse_calls := Suc (GetDatabaseWithResponse_calls w)\<rparr>"
  let ?e = "''database failed to reach active status: status='' @ Status db"
  have c: "keyspaceCreateAttempt env a b w = (Some (NonRetryableError ?e), ?w1)" for a b
    using reply code body terminal by (auto simp: keyspaceCreateAttempt_def Let_def)
  have d: "keyspaceDeleteAttempt env a b w = (Some (NonRetryableError ?e), ?w1)" for a b
    using reply code body terminal by (auto simp: keyspaceDeleteAttempt_def Let_def)
  show ?thesis
    by (simp add: resourceKeyspaceCreate_def resourceKeyspaceDelete_def Let_def n c d)
qed

theorem parent_terminal_fails_immediately_witness:
  "resourceKeyspaceCreate (databaseRemote TERMINATED) 5 (initialWorld keyspaceData)
     = (Some ''database failed to reach active status: status=TERMINATED'',
        (initialWorld keyspaceData)\<lparr>GetDatabaseWithResponse_calls := 1\<rparr>)
   \<and> resourceKeyspaceDelete (databaseRemote TERMINATED) 5 (initialWorld keyspaceData)
     = (Some ''database failed to reach active status: status=TERMINATED'',
        (initialWorld keyspaceData)\<lparr>GetDatabaseWithResponse_calls := 1\<rparr>)
   \<and> AddKeyspaceWithResponse_calls
        (snd (resourceKeyspaceCreate (databaseRemote TERMINATED) 5 (initialWorld keyspaceData))) = 0
   \<and> DropKeyspaceWithResponse_calls
        (snd (resourceKeyspaceDelete (databaseRemote TERMINATED) 5 (initialWorld keyspaceData))) = 0"
proof -
  let ?db = "\<lparr>Status = TERMINATED,
       Info = \<lparr>CloudProvider = Some ''GCP'', Region = Some ''us-east1''\<rparr>\<rparr>"
  have 1: "(0::nat) < 5" by simp
  have 2: "GetDatabaseWithResponse (databaseRemote TERMINATED)
             (GetDatabaseWithResponse_calls (initialWorld keyspaceData))
           = Inr (databaseReply TERMINATED)"
    by (simp add: databaseRemote_def)
  have 3: "StatusCode (databaseReply TERMINATED) \<le> 200"
    by (simp add: databaseReply_def)
  have 4: "JSON200 (databaseReply TERMINATED) = Some ?db"
    by (simp add: databaseReply_def)
  have 5: "Status ?db \<in> {ERROR, TERMINATED, TERMINATING}"
    by simp
  show ?thesis
    using parent_terminal_fails_immediately [OF 1 2 3 4 5]
    by (simp add: TERMINATED_def)
qed

section \<open>The CDC operations\<close>

text \<open>None of the steps of CDC create touches the resource data before the loops are
  left.\<close>

lemma getPulsarToken_resourceData:
  "resourceData (snd (getPulsarToken env w)) = resourceData w"
  by (simp add: getPulsarToken_def Let_def split: sum.splits list.splits)

lemma prepCDC_resourceData:
  "resourceData (snd (prepCDC env w)) = resourceData w"
proof -
  let ?w1 = "w\<lparr>getDatabase_calls := Suc (getDatabase_calls w)\<rparr>"
  have "resourceData (snd (getPulsarToken env ?w1)) = resourceData w"
    by (simp add: getPulsarToken_resourceData)
  then show ?thesis
    by (auto simp: prepCDC_def Let_def split: sum.splits option.splits prod.splits go.splits)
qed

lemma enableLoop_resourceData:
  "resourceData (snd (enableLoop env enableClientResult retryCount bodyBuffer w)) = resourceData w"
proof (induction env enableClientResult retryCount bodyBuffer w rule: enableLoop.induct)
  case (1 env enableClientResult retryCount bodyBuffer w)
  let ?w1 = "w\<lparr>EnableCDC_calls := Suc (EnableCDC_calls w)\<rparr>"
  let ?w2 = "if 0 < retryCount then ?w1\<lparr>Sleep_seconds := Sleep_seconds ?w1 + 20\<rparr> else ?w1"
  have w2: "resourceData ?w2 = resourceData w"
    by simp
  have prep: "resourceData (snd (prepCDC env ?w2)) = resourceData w"
    using prepCDC_resourceData [of env ?w2] w2 by simp
  show ?case
    apply (subst enableLoop.simps)
    using 1 [OF _ refl _ _ refl] prep
    apply (auto simp: Let_def split: sum.splits prod.splits go.splits option.splits)
    done
qed

lemma convergenceLoop_resourceData:
  assumes "convergenceLoop env cdcResult retryCount bodyBuffer w = Some (r, w')"
  shows "resourceData w' = resourceData w"
proof -
  have "resourceData (snd (r, w')) = resourceData w"
  proof (rule convergenceLoop.raw_induct
      [where P = "\<lambda>env c rc bb w y. resourceData (snd y) = resourceData w", OF _ assms],
      goal_cases)
    case (1 loop env c rc bb w y)
    from 1(2) show ?case
      by (auto simp: Let_def split: if_splits sum.splits dest!: 1(1))
  qed
  then show ?thesis by simp
qed

lemma convergenceLoop_nonempty:
  "cdcResult \<noteq> [] \<Longrightarrow>
   convergenceLoop env cdcResult retryCount bodyBuffer w = Some (Inr cdcResult, w)"
  by (subst convergenceLoop.simps) simp

lemma convergenceLoop_result_nonempty:
  assumes "convergenceLoop env cdcResult retryCount bodyBuffer w = Some (Inr listing, w')"
  shows "listing \<noteq> []"
proof -
  have "case fst (Inr listing :: error + CDCEntry list, w') of Inl _ \<Rightarrow> True | Inr l \<Rightarrow> l \<noteq> []"
  proof (rule convergenceLoop.raw_induct
      [where P = "\<lambda>env c rc bb w y. case fst y of Inl _ \<Rightarrow> True | Inr l \<Rightarrow> l \<noteq> []", OF _ assms],
      goal_cases)
    case (1 loop env c rc bb w y)
    from 1(2) show ?case
      by (auto simp: Let_def split: if_splits sum.splits dest!: 1(1))
  qed
  then show ?thesis by simp
qed

text \<open>A listing that stays empty keeps the second loop running for ever.\<close>

lemma convergenceLoop_diverges:
  assumes empty: "\<forall>i. \<exists>r. GetCDC env i = Inr r \<and> HasPrefix (HttpStatus r) ''2''
                    \<and> Unmarshal_CDCResult env (fst (HttpBody r)) = []"
  shows "convergenceLoop env [] 0 bodyBuffer w = None"
proof (rule ccontr)
  assume "convergenceLoop env [] 0 bodyBuffer w \<noteq> None"
  then obtain y where y: "convergenceLoop env [] 0 bodyBuffer w = Some y"
    by auto
  have "\<not> (e = env \<and> c = [] \<and> rc = 0)"
    if "convergenceLoop e c rc bb v = Some y" for e c rc bb v
  proof (rule convergenceLoop.raw_induct
      [where P = "\<lambda>e c rc bb v y. \<not> (e = env \<and> c = [] \<and> rc = 0)", OF _ that], goal_cases)
    case (1 loop e c rc bb v y)
    show ?case
    proof
      assume inv: "e = env \<and> c = [] \<and> rc = 0"
      from empty obtain r where r: "GetCDC env (GetCDC_calls v) = Inr r"
        "HasPrefix (HttpStatus r) ''2''" "Unmarshal_CDCResult env (fst (HttpBody r)) = []"
        by blast
      from 1(2) inv r
      have "loop env [] 0 (fst (HttpBody r)) (v\<lparr>GetCDC_calls := Suc (GetCDC_calls v)\<rparr>) = Some y"
        by (simp add: Let_def)
      from 1(1) [OF this] show False by simp
    qed
  qed
  from this [OF y] show False by simp
qed

text \<open>When every resolution of the credentials succeeds and the mutation is answered with
  401 every time, the first loop ends in its error after the attempts that are left.\<close>

lemma HasPrefix_401_not_2: "HasPrefix s ''401'' \<Longrightarrow> \<not> HasPrefix s ''2''"
  by (cases s) (auto simp: HasPrefix_def)

lemma prepCDC_resolves:
  assumes db: "\<forall>i. \<exists>db cp rg. getDatabase env i = Inr db
                  \<and> CloudProvider (Info db) = Some cp \<and> Region (Info db) = Some rg"
      and toks: "\<forall>i. \<exists>body t ts. IdListTenantTokensWithResponse env i = Inr body
                  \<and> Unmarshal_StreamingTokens env body = Inr (t # ts)"
      and tok: "\<forall>i. \<exists>b. GetTokenByIDWithResponse env i = Inr b"
  shows "\<exists>c t. prepCDC env w
           = (Return (c, t, None),
              w\<lparr>getDatabase_calls := Suc (getDatabase_calls w),
                IdListTenantTokensWithResponse_calls := Suc (IdListTenantTokensWithResponse_calls w),
                GetTokenByIDWithResponse_calls := Suc (GetTokenByIDWithResponse_calls w)\<rparr>)"
proof -
  from db obtain d cp rg where d: "getDatabase env (getDatabase_calls w) = Inr d"
    "CloudProvider (Info d) = Some cp" "Region (Info d) = Some rg"
    by blast
  from toks obtain body t ts where t:
    "IdListTenantTokensWithResponse env (IdListTenantTokensWithResponse_calls w) = Inr body"
    "Unmarshal_StreamingTokens env body = Inr (t # ts)"
    by blast
  from tok obtain b where b:
    "GetTokenByIDWithResponse env (GetTokenByIDWithResponse_calls w) = Inr b"
    by blast
  show ?thesis
    by (simp add: prepCDC_def getPulsarToken_def Let_def d t b)
qed

lemma enableLoop_stale:
  assumes stale: "\<forall>i. \<exists>r. EnableCDC env i = Inr r \<and> HasPrefix (HttpStatus r) ''401''"
      and db: "\<forall>i. \<exists>db cp rg. getDatabase env i = Inr db
                  \<and> CloudProvider (Info db) = Some cp \<and> Region (Info db) = Some rg"
      and toks: "\<forall>i. \<exists>body t ts. IdListTenantTokensWithResponse env i = Inr body
                  \<and> Unmarshal_StreamingTokens env body = Inr (t # ts)"
      and tok: "\<forall>i. \<exists>b. GetTokenByIDWithResponse env i = Inr b"
      and cond: "case enableClientResult of None \<Rightarrow> True | Some r \<Rightarrow> HasPrefix (HttpStatus r) ''401''"
      and range: "0 \<le> retryCount" "retryCount \<le> 7"
  shows "enableLoop env enableClientResult retryCount bodyBuffer w
           = (Return (Inl (''Could not enable CDC with token: '' @ bodyBuffer)),
              w\<lparr>EnableCDC_calls := EnableCDC_calls w + nat (8 - retryCount),
                getDatabase_calls := getDatabase_calls w + nat (7 - retryCount),
                IdListTenantTokensWithResponse_calls :=
                  IdListTenantTokensWithResponse_calls w + nat (7 - retryCount),
                GetTokenByIDWithResponse_calls :=
                  GetTokenByIDWithResponse_calls w + nat (7 - retryCount),
                Sleep_seconds := Sleep_seconds w + 20 * nat (8 - max 1 retryCount)\<rparr>)"
  using cond range
proof (induction "nat (7 - retryCount)" arbitrary: retryCount enableClientResult w)
  case 0
  then have rc: "retryCount = 7" by simp
  from stale obtain r where r: "EnableCDC env (EnableCDC_calls w) = Inr r"
    "HasPrefix (HttpStatus r) ''401''"
    by blast
  from r(2) have n2: "\<not> HasPrefix (HttpStatus r) ''2''"
    by (rule HasPrefix_401_not_2)
  show ?case
    apply (subst enableLoop.simps)
    using "0.prems"(1) r n2 rc
    apply (simp add: Let_def)
    done
next
  case (Suc k)
  then have rc: "retryCount \<le> 6" "nat (7 - (retryCount + 1)) = k" by simp_all
  from stale obtain r where r: "EnableCDC env (EnableCDC_calls w) = Inr r"
    "HasPrefix (HttpStatus r) ''401''"
    by blast
  from r(2) have n2: "\<not> HasPrefix (HttpStatus r) ''2''"
    by (rule HasPrefix_401_not_2)
  let ?w1 = "w\<lparr>EnableCDC_calls := Suc (EnableCDC_calls w)\<rparr>"
  let ?w2 = "if 0 < retryCount then ?w1\<lparr>Sleep_seconds := Sleep_seconds ?w1 + 20\<rparr> else ?w1"
  let ?w3 = "?w2\<lparr>getDatabase_calls := Suc (getDatabase_calls ?w2),
                IdListTenantTokensWithResponse_calls := Suc (IdListTenantTokensWithResponse_calls ?w2),
                GetTokenByIDWithResponse_calls := Suc (GetTokenByIDWithResponse_calls ?w2)\<rparr>"
  from prepCDC_resolves [OF db toks tok, of ?w2]
  obtain c t where prep: "prepCDC env ?w2 = (Return (c, t, None), ?w3)"
    by blast
  have step: "enableLoop env enableClientResult retryCount bodyBuffer w
      = enableLoop env (Some r) (retryCount + 1) bodyBuffer ?w3"
    apply (subst enableLoop.simps)
    using Suc.prems(1) r n2 rc(1) prep
    apply (simp add: Let_def)
    done
  have IH: "enableLoop env (Some r) (retryCount + 1) bodyBuffer ?w3
      = (Return (Inl (''Could not enable CDC with token: '' @ bodyBuffer)),
         ?w3\<lparr>EnableCDC_calls := EnableCDC_calls ?w3 + nat (8 - (retryCount + 1)),
                getDatabase_calls := getDatabase_calls ?w3 + nat (7 - (retryCount + 1)),
                IdListTenantTokensWithResponse_calls :=
                  IdListTenantTokensWithResponse_calls ?w3 + nat (7 - (retryCount + 1)),
                GetTokenByIDWithResponse_calls :=
                  GetTokenByIDWithResponse_calls ?w3 + nat (7 - (retryCount + 1)),
                Sleep_seconds := Sleep_seconds ?w3 + 20 * nat (8 - max 1 (retryCount + 1))\<rparr>)"
    using Suc.hyps(1) [of "retryCount + 1" "Some r" ?w3] rc r(2) Suc.prems(2)
    by simp
  have a: "Suc (nat (7 - (retryCount + 1))) = nat (7 - retryCount)"
    "Suc (nat (8 - (retryCount + 1))) = nat (8 - retryCount)"
    using rc(1) by simp_all
  have b: "retryCount = 0 \<Longrightarrow> nat (8 - max 1 (retryCount + 1)) = nat (8 - max 1 retryCount)"
    "0 < retryCount \<Longrightarrow> Suc (nat (8 - max 1 (retryCount + 1))) = nat (8 - max 1 retryCount)"
    using rc(1) by simp_all
  show ?case
  proof (cases "0 < retryCount")
    case True
    with step IH a b(2) [OF True] show ?thesis
      by (simp add: add.commute add.left_commute flip: a b)
  next
    case False
    with Suc.prems(2) have z: "retryCount = 0" by simp
    with step IH a b(1) [OF z] show ?thesis
      by simp
  qed
qed

lemma credentialsRemote_simps [simp]:
  "GetCurrentOrganization credentialsRemote i
     = Inr \<lparr>HttpStatus = ''200 OK'', HttpBody = (''org'', None)\<rparr>"
  "getDatabase credentialsRemote i = Inr \<lparr>Status = ACTIVE,
        Info = \<lparr>CloudProvider = Some ''GCP'', Region = Some ''us-east1''\<rparr>\<rparr>"
  "IdListTenantTokensWithResponse credentialsRemote i = Inr ''tokens''"
  "Unmarshal_StreamingTokens credentialsRemote b = Inr [\<lparr>Tokenid = ''t1''\<rparr>]"
  "GetTokenByIDWithResponse credentialsRemote i = Inr ''secret''"
  "EnableCDC credentialsRemote i = Inl ''connection refused''"
  "GetCDC credentialsRemote i = Inl ''connection refused''"
  "Unmarshal_CDCResult credentialsRemote b = []"
  by (simp_all add: credentialsRemote_def unreachableRemote_def)

text \<open>
  C2 (as amended). When the organization is read, every resolution of the credentials
  succeeds and \<open>EnableCDC\<close> is answered with 401 on every call, CDC create ends with the
  error \<open>Could not enable CDC with token\<close> after exactly 8 calls of \<open>EnableCDC\<close>; it
  has then resolved the credentials 8 times (once before the loop and once after each of
  the first 7 rejections) and slept 7 times 20 seconds.
\<close>

theorem stale_credential_bound:
  assumes org: "GetCurrentOrganization env (GetCurrentOrganization_calls w) = Inr orgBody"
      and read: "snd (HttpBody orgBody) = None"
      and stale: "\<forall>i. \<exists>r. EnableCDC env i = Inr r \<and> HasPrefix (HttpStatus r) ''401''"
      and db: "\<forall>i. \<exists>db cp rg. getDatabase env i = Inr db
                  \<and> CloudProvider (Info db) = Some cp \<and> Region (Info db) = Some rg"
      and toks: "\<forall>i. \<exists>body t ts. IdListTenantTokensWithResponse env i = Inr body
                  \<and> Unmarshal_StreamingTokens env body = Inr (t # ts)"
      and tok: "\<forall>i. \<exists>b. GetTokenByIDWithResponse env i = Inr b"
  shows "resourceCDCCreate env w
           = Some (Return (Some (''Could not enable CDC with token: '' @ fst (HttpBody orgBody))),
                   w\<lparr>GetCurrentOrganization_calls := Suc (GetCurrentOrganization_calls w),
                     EnableCDC_calls := EnableCDC_calls w + 8,
                     getDatabase_calls := getDatabase_calls w + 8,
                     IdListTenantTokensWithResponse_calls :=
                       IdListTenantTokensWithResponse_calls w + 8,
                     GetTokenByIDWithResponse_calls := GetTokenByIDWithResponse_calls w + 8,
                     Sleep_seconds := Sleep_seconds w + 140\<rparr>)"
proof -
  obtain w1 where w1: "w1 = w\<lparr>GetCurrentOrganization_calls := Suc (GetCurrentOrganization_calls w)\<rparr>"
    by simp
  from prepCDC_resolves [OF db toks tok, of w1]
  obtain c t w2 where prep: "prepCDC env w1 = (Return (c, t, None), w2)"
    and w2: "w2 = w1\<lparr>getDatabase_calls := Suc (getDatabase_calls w1),
                IdListTenantTokensWithResponse_calls := Suc (IdListTenantTokensWithResponse_calls w1),
                GetTokenByIDWithResponse_calls := Suc (GetTokenByIDWithResponse_calls w1)\<rparr>"
    by blast
  obtain w3 where loop: "enableLoop env None 0 (fst (HttpBody orgBody)) w2
      = (Return (Inl (''Could not enable CDC with token: '' @ fst (HttpBody orgBody))), w3)"
    and w3: "w3 = w2\<lparr>EnableCDC_calls := EnableCDC_calls w2 + nat (8 - 0),
               getDatabase_calls := getDatabase_calls w2 + nat (7 - 0),
               IdListTenantTokensWithResponse_calls :=
                 IdListTenantTokensWithResponse_calls w2 + nat (7 - 0),
               GetTokenByIDWithResponse_calls :=
                 GetTokenByIDWithResponse_calls w2 + nat (7 - 0),
               Sleep_seconds := Sleep_seconds w2 + 20 * nat (8 - max 1 0)\<rparr>"
    using enableLoop_stale [OF stale db toks tok, of None 0 "fst (HttpBody orgBody)" w2]
    by simp
  have "resourceCDCCreate env w
      = Some (Return (Some (''Could not enable CDC with token: '' @ fst (HttpBody orgBody))), w3)"
    unfolding resourceCDCCreate_def Let_def
    by (simp only: org read prep loop w1 [symmetric] sum.case option.case prod.case go.case)
  then show ?thesis
    by (simp add: w3 w2 w1)
qed

theorem stale_credential_bound_witness:
  "resourceCDCCreate staleRemote (initialWorld cdcData)
     = Some (Return (Some ''Could not enable CDC with token: org''),
             (initialWorld cdcData)\<lparr>GetCurrentOrganization_calls := 1,
               EnableCDC_calls := 8, getDatabase_calls := 8,
               IdListTenantTokensWithResponse_calls := 8,
               GetTokenByIDWithResponse_calls := 8, Sleep_seconds := 140\<rparr>)"
proof -
  let ?org = "\<lparr>HttpStatus = ''200 OK'', HttpBody = (''org'', None)\<rparr>"
  have 1: "GetCurrentOrganization staleRemote
             (GetCurrentOrganization_calls (initialWorld cdcData)) = Inr ?org"
    by (simp add: staleRemote_def)
  have 2: "snd (HttpBody ?org) = None"
    by simp
  have 3: "\<forall>i. \<exists>r. EnableCDC staleRemote i = Inr r \<and> HasPrefix (HttpStatus r) ''401''"
    by (simp add: staleRemote_def HasPrefix_def)
  have 4: "\<forall>i. \<exists>db cp rg. getDatabase staleRemote i = Inr db
                  \<and> CloudProvider (Info db) = Some cp \<and> Region (Info db) = Some rg"
    by (simp add: staleRemote_def)
  have 5: "\<forall>i. \<exists>body t ts. IdListTenantTokensWithResponse staleRemote i = Inr body
                  \<and> Unmarshal_StreamingTokens staleRemote body = Inr (t # ts)"
    by (simp add: staleRemote_def)
  have 6: "\<forall>i. \<exists>b. GetTokenByIDWithResponse staleRemote i = Inr b"
    by (simp add: staleRemote_def)
  show ?thesis
    using stale_credential_bound [OF 1 2 3 4 5 6] by simp
qed

lemma staleRemote_simps [simp]:
  "GetCurrentOrganization staleRemote i
     = Inr \<lparr>HttpStatus = ''200 OK'', HttpBody = (''org'', None)\<rparr>"
  "getDatabase staleRemote i = Inr \<lparr>Status = ACTIVE,
        Info = \<lparr>CloudProvider = Some ''GCP'', Region = Some ''us-east1''\<rparr>\<rparr>"
  "IdListTenantTokensWithResponse staleRemote i = Inr ''tokens''"
  "Unmarshal_StreamingTokens staleRemote b = Inr [\<lparr>Tokenid = ''t1''\<rparr>]"
  "GetTokenByIDWithResponse staleRemote i = Inr ''secret''"
  "EnableCDC staleRemote i = Inr \<lparr>HttpStatus = ''401 Unauthorized'', HttpBody = ([], None)\<rparr>"
  by (simp_all add: staleRemote_def)

text \<open>
  C2 as stated fails: on a remote side that answers every \<open>EnableCDC\<close> call with 401,
  the mutation is attempted 8 times, not 6 or 7, and the credentials are resolved 8
  times.
\<close>

theorem stale_credential_bound_counterexample:
  "fst (the (resourceCDCCreate staleRemote (initialWorld cdcData)))
     = Return (Some ''Could not enable CDC with token: org'')
   \<and> EnableCDC_calls (snd (the (resourceCDCCreate staleRemote (initialWorld cdcData)))) = 8
   \<and> getDatabase_calls (snd (the (resourceCDCCreate staleRemote (initialWorld cdcData)))) = 8
   \<and> \<not> EnableCDC_calls (snd (the (resourceCDCCreate staleRemote (initialWorld cdcData)))) \<le> 7"
proof -
  obtain w1 where w1: "w1 = (initialWorld cdcData)\<lparr>GetCurrentOrganization_calls := Suc 0\<rparr>"
    by simp
  obtain c t w2 where prep: "prepCDC staleRemote w1 = (Return (c, t, None), w2)"
    and w2: "w2 = w1\<lparr>getDatabase_calls := Suc (getDatabase_calls w1),
                IdListTenantTokensWithResponse_calls := Suc (IdListTenantTokensWithResponse_calls w1),
                GetTokenByIDWithResponse_calls := Suc (GetTokenByIDWithResponse_calls w1)\<rparr>"
    by (simp add: prepCDC_def getPulsarToken_def Let_def)
  have stale: "\<forall>i. \<exists>r. EnableCDC staleRemote i = Inr r \<and> HasPrefix (HttpStatus r) ''401''"
    by (simp add: HasPrefix_def)
  obtain w3 where loop: "enableLoop staleRemote None 0 ''org'' w2
      = (Return (Inl (''Could not enable CDC with token: '' @ ''org'')), w3)"
    and w3: "w3 = w2\<lparr>EnableCDC_calls := EnableCDC_calls w2 + nat (8 - 0),
               getDatabase_calls := getDatabase_calls w2 + nat (7 - 0),
               IdListTenantTokensWithResponse_calls :=
                 IdListTenantTokensWithResponse_calls w2 + nat (7 - 0),
               GetTokenByIDWithResponse_calls :=
                 GetTokenByIDWithResponse_calls w2 + nat (7 - 0),
               Sleep_seconds := Sleep_seconds w2 + 20 * nat (8 - max 1 0)\<rparr>"
    using enableLoop_stale [of staleRemote None 0 "''org''" w2] stale
    by simp
  have "resourceCDCCreate staleRemote (initialWorld cdcData)
      = Some (Return (Some (''Could not enable CDC with token: '' @ ''org'')), w3)"
    unfolding resourceCDCCreate_def Let_def
    by (simp add: w1 [symmetric] prep loop)
  then show ?thesis
    by (simp add: w3 w2 w1)
qed

lemma listingRemote_simps [simp]:
  "GetCurrentOrganization (listingRemote entries) i
     = Inr \<lparr>HttpStatus = ''200 OK'', HttpBody = (''org'', None)\<rparr>"
  "getDatabase (listingRemote entries) i = Inr \<lparr>Status = ACTIVE,
        Info = \<lparr>CloudProvider = Some ''GCP'', Region = Some ''us-east1''\<rparr>\<rparr>"
  "IdListTenantTokensWithResponse (listingRemote entries) i = Inr ''tokens''"
  "Unmarshal_StreamingTokens (listingRemote entries) b = Inr [\<lparr>Tokenid = ''t1''\<rparr>]"
  "GetTokenByIDWithResponse (listingRemote entries) i = Inr ''secret''"
  "GetCDC (listingRemote entries) i
     = Inr \<lparr>HttpStatus = ''200 OK'', HttpBody = (''listing'', None)\<rparr>"
  "Unmarshal_CDCResult (listingRemote entries) b = entries"
  by (simp_all add: listingRemote_def)

lemma emptyListingRemote_simps [simp]:
  "GetCurrentOrganization emptyListingRemote i
     = Inr \<lparr>HttpStatus = ''200 OK'', HttpBody = (''org'', None)\<rparr>"
  "getDatabase emptyListingRemote i = Inr \<lparr>Status = ACTIVE,
        Info = \<lparr>CloudProvider = Some ''GCP'', Region = Some ''us-east1''\<rparr>\<rparr>"
  "IdListTenantTokensWithResponse emptyListingRemote i = Inr ''tokens''"
  "Unmarshal_StreamingTokens emptyListingRemote b = Inr [\<lparr>Tokenid = ''t1''\<rparr>]"
  "GetTokenByIDWithResponse emptyListingRemote i = Inr ''secret''"
  "EnableCDC emptyListingRemote i
     = Inr \<lparr>HttpStatus = ''200 OK'', HttpBody = (''enabled'', None)\<rparr>"
  "GetCDC emptyListingRemote i
     = Inr \<lparr>HttpStatus = ''200 OK'', HttpBody = (''listing'', None)\<rparr>"
  "Unmarshal_CDCResult emptyListingRemote b = []"
  by (simp_all add: emptyListingRemote_def)

lemma rejectingRemote_simps [simp]:
  "GetCurrentOrganization (rejectingRemote status) i
     = Inr \<lparr>HttpStatus = ''200 OK'', HttpBody = (''org'', None)\<rparr>"
  "getDatabase (rejectingRemote status) i = Inr \<lparr>Status = ACTIVE,
        Info = \<lparr>CloudProvider = Some ''GCP'', Region = Some ''us-east1''\<rparr>\<rparr>"
  "IdListTenantTokensWithResponse (rejectingRemote status) i = Inr ''tokens''"
  "Unmarshal_StreamingTokens (rejectingRemote status) b = Inr [\<lparr>Tokenid = ''t1''\<rparr>]"
  "GetTokenByIDWithResponse (rejectingRemote status) i = Inr ''secret''"
  "EnableCDC (rejectingRemote status) i = Inr \<lparr>HttpStatus = status, HttpBody = ([], None)\<rparr>"
  "GetCDC (rejectingRemote status) i
     = Inr \<lparr>HttpStatus = ''200 OK'', HttpBody = (''listing'', None)\<rparr>"
  "Unmarshal_CDCResult (rejectingRemote status) b = [otherEntry]"
  by (simp_all add: rejectingRemote_def)

text \<open>
  C3, the code at the failing input. \<open>EnableCDC\<close> is accepted and every \<open>GetCDC\<close> call
  succeeds with an empty listing: CDC create never returns. The second loop tests
  \<^verbatim>\<open>retryCount > 6\<close> but never increments \<open>retryCount\<close>, so its attempt ceiling is
  never reached.
\<close>

theorem convergence_poll_never_gives_up:
  "resourceCDCCreate emptyListingRemote (initialWorld cdcData) = None"
proof -
  obtain w1 where w1: "w1 = (initialWorld cdcData)\<lparr>GetCurrentOrganization_calls := Suc 0\<rparr>"
    by simp
  obtain c t w2 where prep: "prepCDC emptyListingRemote w1 = (Return (c, t, None), w2)"
    by (simp add: prepCDC_def getPulsarToken_def Let_def)
  have loop: "enableLoop emptyListingRemote None 0 ''org'' w2
      = (Return (Inr ''enabled''), w2\<lparr>EnableCDC_calls := Suc (EnableCDC_calls w2)\<rparr>)"
    by (subst enableLoop.simps) (simp add: Let_def HasPrefix_def)
  have "convergenceLoop emptyListingRemote [] 0 ''enabled''
          (w2\<lparr>EnableCDC_calls := Suc (EnableCDC_calls w2)\<rparr>) = None"
    by (rule convergenceLoop_diverges) (simp add: HasPrefix_def)
  then show ?thesis
    unfolding resourceCDCCreate_def Let_def
    by (simp add: w1 [symmetric] prep loop)
qed

text \<open>
  C4, the code at the failing input. \<open>EnableCDC\<close> is rejected with status 500, or with
  status 409, while the tenant's listing holds an entry for another table: CDC create
  calls \<open>EnableCDC\<close> once, leaves the first loop because the status is not 401, reads
  the listing, and reports success with the id set, as if the mutation had been
  accepted.
\<close>

theorem cdc_enable_rejection_ignored:
  "resourceCDCCreate (rejectingRemote ''500 Internal Server Error'') (initialWorld cdcData)
     = Some (Return None,
             (initialWorld cdcData)\<lparr>
               resourceData := cdcData\<lparr>ResourceId := ''db-1/ks/tbl/tenant'',
                 Attrs := (Attrs cdcData)(''connector_status'' \<mapsto> ''running'',
                                          ''data_topic'' \<mapsto> ''topic'')\<rparr>,
               GetCurrentOrganization_calls := 1, getDatabase_calls := 2,
               IdListTenantTokensWithResponse_calls := 2, GetTokenByIDWithResponse_calls := 2,
               EnableCDC_calls := 1, GetCDC_calls := 1\<rparr>)
   \<and> resourceCDCCreate (rejectingRemote ''409 Conflict'') (initialWorld cdcData)
     = Some (Return None,
             (initialWorld cdcData)\<lparr>
               resourceData := cdcData\<lparr>ResourceId := ''db-1/ks/tbl/tenant'',
                 Attrs := (Attrs cdcData)(''connector_status'' \<mapsto> ''running'',
                                          ''data_topic'' \<mapsto> ''topic'')\<rparr>,
               GetCurrentOrganization_calls := 1, getDatabase_calls := 2,
               IdListTenantTokensWithResponse_calls := 2, GetTokenByIDWithResponse_calls := 2,
               EnableCDC_calls := 1, GetCDC_calls := 1\<rparr>)"
proof -
  have run: "resourceCDCCreate (rejectingRemote status) (initialWorld cdcData)
     = Some (Return None,
             (initialWorld cdcData)\<lparr>
               resourceData := cdcData\<lparr>ResourceId := ''db-1/ks/tbl/tenant'',
                 Attrs := (Attrs cdcData)(''connector_status'' \<mapsto> ''running'',
                                          ''data_topic'' \<mapsto> ''topic'')\<rparr>,
               GetCurrentOrganization_calls := 1, getDatabase_calls := 2,
               IdListTenantTokensWithResponse_calls := 2, GetTokenByIDWithResponse_calls := 2,
               EnableCDC_calls := 1, GetCDC_calls := 1\<rparr>)"
    if status: "\<not> HasPrefix status ''2''" "\<not> HasPrefix status ''401''" for status
  proof -
    let ?env = "rejectingRemote status"
    obtain w1 where w1: "w1 = (initialWorld cdcData)\<lparr>GetCurrentOrganization_calls := Suc 0\<rparr>"
      by simp
    obtain w2 where w2: "w2 = w1\<lparr>getDatabase_calls := Suc (getDatabase_calls w1),
        IdListTenantTokensWithResponse_calls := Suc (IdListTenantTokensWithResponse_calls w1),
        GetTokenByIDWithResponse_calls := Suc (GetTokenByIDWithResponse_calls w1)\<rparr>"
      by simp
    have prep: "prepCDC ?env v = (Return (''pulsar-gcp-useast1'', ''secret'', None),
        v\<lparr>getDatabase_calls := Suc (getDatabase_calls v),
          IdListTenantTokensWithResponse_calls := Suc (IdListTenantTokensWithResponse_calls v),
          GetTokenByIDWithResponse_calls := Suc (GetTokenByIDWithResponse_calls v)\<rparr>)" for v
    proof -
      have "GetPulsarCluster ''GCP'' ''us-east1'' = ''pulsar-gcp-useast1''"
        by code_simp
      then show ?thesis
        by (simp add: prepCDC_def getPulsarToken_def Let_def)
    qed
    obtain w3 where w3: "w3 = w2\<lparr>EnableCDC_calls := Suc (EnableCDC_calls w2)\<rparr>"
      by simp
    obtain w4 where w4: "w4 = w3\<lparr>getDatabase_calls := Suc (getDatabase_calls w3),
        IdListTenantTokensWithResponse_calls := Suc (IdListTenantTokensWithResponse_calls w3),
        GetTokenByIDWithResponse_calls := Suc (GetTokenByIDWithResponse_calls w3)\<rparr>"
      by simp
    have exit: "enableLoop ?env (Some \<lparr>HttpStatus = status, HttpBody = ([], None)\<rparr>) 1 ''org'' w4
        = (Return (Inr ''org''), w4)"
      using status(2) by (subst enableLoop.simps) simp
    have loop: "enableLoop ?env None 0 ''org'' w2 = (Return (Inr ''org''), w4)"
      using status(1) exit
      by (subst enableLoop.simps) (simp add: Let_def prep w3 [symmetric] w4 [symmetric])
    obtain w5 where w5: "w5 = w4\<lparr>GetCDC_calls := Suc (GetCDC_calls w4)\<rparr>"
      by simp
    have listed: "convergenceLoop ?env [otherEntry] 0 ''listing'' w5 = Some (Inr [otherEntry], w5)"
      by (rule convergenceLoop_nonempty) simp
    have poll: "convergenceLoop ?env [] 0 ''org'' w4 = Some (Inr [otherEntry], w5)"
      using listed
      by (subst convergenceLoop.simps) (simp add: Let_def HasPrefix_def w5 [symmetric])
    have data: "resourceData w5 = cdcData"
      by (simp add: w5 w4 w3 w2 w1)
    have get: "ResourceData_Get cdcData ''table'' = ''tbl''"
      "ResourceData_Get cdcData ''keyspace'' = ''ks''"
      "ResourceData_Get cdcData ''database_id'' = ''db-1''"
      "ResourceData_Get cdcData ''tenant_name'' = ''tenant''"
      by (simp_all add: ResourceData_Get_def cdcData_def)
    have entry: "ConnectorStatus otherEntry = ''running''" "DataTopic otherEntry = ''topic''"
      by (simp_all add: otherEntry_def)
    obtain d1 where d1: "d1 = cdcData\<lparr>Attrs := (Attrs cdcData)(''connector_status'' \<mapsto> ''running'')\<rparr>"
      by simp
    have set1: "ResourceData_Set cdcData ''connector_status'' ''running'' = (None, d1)"
      by (simp add: ResourceData_Set_def d1 cdcData_def resourceCDC_Schema_def)
    have set2: "ResourceData_Set d1 ''data_topic'' ''topic''
        = (None, cdcData\<lparr>Attrs := (Attrs cdcData)(''connector_status'' \<mapsto> ''running'',
                                                  ''data_topic'' \<mapsto> ''topic'')\<rparr>)"
      by (simp add: ResourceData_Set_def d1 cdcData_def resourceCDC_Schema_def)
    have prep1: "prepCDC ?env w1 = (Return (''pulsar-gcp-useast1'', ''secret'', None), w2)"
      by (simp add: prep w2)
    have "resourceCDCCreate ?env (initialWorld cdcData)
        = Some (Return None, w5\<lparr>resourceData := cdcData\<lparr>ResourceId := ''db-1/ks/tbl/tenant'',
                 Attrs := (Attrs cdcData)(''connector_status'' \<mapsto> ''running'',
                                          ''data_topic'' \<mapsto> ''topic'')\<rparr>\<rparr>)"
      unfolding resourceCDCCreate_def Let_def
      by (simp add: w1 [symmetric] prep1 loop poll data get entry set1 set2
          ResourceData_SetId_def setCDCData_def cdcID_def)
    then show ?thesis
      by (simp add: w5 w4 w3 w2 w1)
  qed
  have "\<not> HasPrefix ''500 Internal Server Error'' ''2''"
    "\<not> HasPrefix ''500 Internal Server Error'' ''401''"
    "\<not> HasPrefix ''409 Conflict'' ''2''" "\<not> HasPrefix ''409 Conflict'' ''401''"
    by (simp_all add: HasPrefix_def)
  then show ?thesis
    using run by blast
qed

lemma ResourceData_Set_ResourceId:
  "ResourceData_Set d key v = (e, d') \<Longrightarrow> ResourceId d' = ResourceId d"
  by (auto simp: ResourceData_Set_def split: if_splits)

lemma resourceCDCCreate_failure:
  assumes run: "resourceCDCCreate env w = Some (res, w')"
      and failed: "res \<noteq> Return None"
  shows "ResourceId (resourceData w') = ResourceId (resourceData w)"
proof -
  let ?w1 = "w\<lparr>GetCurrentOrganization_calls := Suc (GetCurrentOrganization_calls w)\<rparr>"
  obtain p w2 where prep: "prepCDC env ?w1 = (p, w2)"
    by (cases "prepCDC env ?w1")
  with prepCDC_resourceData [of env ?w1] have d2: "resourceData w2 = resourceData w"
    by simp
  show ?thesis
  proof (cases "GetCurrentOrganization env (GetCurrentOrganization_calls w)")
    case (Inl err)
    with run show ?thesis
      by (auto simp: resourceCDCCreate_def Let_def)
  next
    case (Inr orgBody)
    show ?thesis
    proof (cases "snd (HttpBody orgBody)")
      case (Some err)
      with run Inr show ?thesis
        by (auto simp: resourceCDCCreate_def Let_def)
    next
      case None
      obtain q w3 where loop: "enableLoop env None 0 (fst (HttpBody orgBody)) w2 = (q, w3)"
        by (cases "enableLoop env None 0 (fst (HttpBody orgBody)) w2")
      with enableLoop_resourceData [of env None 0 "fst (HttpBody orgBody)" w2] d2
      have d3: "resourceData w3 = resourceData w"
        by simp
      from run Inr None
      have rest: "(case prepCDC env ?w1 of
           (Panic p, w2) \<Rightarrow> Some (Panic p, w2)
         | (Return (_, _, Some err), w2) \<Rightarrow> Some (Return (Some err), w2)
         | (Return (_, _, None), w2) \<Rightarrow>
             (case enableLoop env None 0 (fst (HttpBody orgBody)) w2 of
                (Panic p, w3) \<Rightarrow> Some (Panic p, w3)
              | (Return (Inl err), w3) \<Rightarrow> Some (Return (Some err), w3)
              | (Return (Inr bodyBuffer), w3) \<Rightarrow>
                  (case convergenceLoop env [] 0 bodyBuffer w3 of
                     None \<Rightarrow> None
                   | Some (Inl err, w4) \<Rightarrow> Some (Return (Some err), w4)
                   | Some (Inr cdcResult, w4) \<Rightarrow>
                       (case cdcResult of
                          [] \<Rightarrow> Some (Panic ''index out of range [0] with length 0'', w4)
                        | e # _ \<Rightarrow>
                            (case ResourceData_Set (resourceData w4)
                                    ''connector_status'' (ConnectorStatus e) of
                               (Some err, d1) \<Rightarrow>
                                 Some (Return (Some err), w4\<lparr>resourceData := d1\<rparr>)
                             | (None, d1) \<Rightarrow>
                                 (case ResourceData_Set d1 ''data_topic'' (DataTopic e) of
                                    (Some err, d2) \<Rightarrow>
                                      Some (Return (Some err), w4\<lparr>resourceData := d2\<rparr>)
                                  | (None, d2) \<Rightarrow>
                                      Some (Return None,
                                            w4\<lparr>resourceData :=
                                                 setCDCData d2
                                                   (cdcID (ResourceData_Get (resourceData w) ''database_id'')
                                                      (ResourceData_Get (resourceData w) ''keyspace'')
                                                      (ResourceData_Get (resourceData w) ''table'')
                                                      (ResourceData_Get (resourceData w) ''tenant_name''))\<rparr>)))))))
          = Some (res, w')"
        by (simp add: resourceCDCCreate_def Let_def)
      show ?thesis
      proof (cases "\<exists>c t. p = Return (c, t, None)")
        case False
        with rest prep d2 show ?thesis
          by (auto split: go.splits option.splits)
      next
        case True
        show ?thesis
        proof (cases "\<exists>bodyBuffer. q = Return (Inr bodyBuffer)")
          case False
          with rest prep True loop d3 show ?thesis
            by (auto split: go.splits sum.splits)
        next
          case bb: True
          then obtain bodyBuffer where q: "q = Return (Inr bodyBuffer)"
            by blast
          from rest prep True loop q
          obtain x w4 where poll: "convergenceLoop env [] 0 bodyBuffer w3 = Some (x, w4)"
            by (cases "convergenceLoop env [] 0 bodyBuffer w3") auto
          with convergenceLoop_resourceData [OF poll] d3
          have d4: "resourceData w4 = resourceData w"
            by simp
          from rest prep True loop q poll failed d4 show ?thesis
            by (auto simp: ResourceData_Set_def
                split: sum.splits list.splits prod.splits option.splits if_splits)
        qed
      qed
    qed
  qed
qed

text \<open>
  C8. A create that ends in an error leaves the resource id as it was, so an id that was
  unset stays unset. For keyspace create, on a resource whose schema declares \<open>name\<close>
  and \<open>database_id\<close> (as \<open>resourceKeyspace\<close> does, so that \<open>d.Set\<close> cannot fail after
  \<open>d.SetId\<close>); for CDC create, on every run that returns an error diagnostic or panics.
\<close>

theorem failed_create_keeps_id:
  "(set resourceKeyspace_Schema \<subseteq> set (SchemaKeys (resourceData w))
      \<and> resourceKeyspaceCreate env timeout w = (Some err, w')
    \<longrightarrow> ResourceId (resourceData w') = ResourceId (resourceData w))
   \<and> (resourceCDCCreate env w = Some (res, w'') \<and> res \<noteq> Return None
    \<longrightarrow> ResourceId (resourceData w'') = ResourceId (resourceData w))"
  using resourceKeyspaceCreate_failure [of w env timeout err w']
    resourceCDCCreate_failure [of env w res w'']
  by auto

theorem failed_create_keeps_id_witness:
  "set resourceKeyspace_Schema \<subseteq> set (SchemaKeys (resourceData (initialWorld keyspaceData)))
   \<and> resourceKeyspaceCreate (databaseRemote ERROR) (Suc 0) (initialWorld keyspaceData)
       = (Some ''database failed to reach active status: status=ERROR'',
          (initialWorld keyspaceData)\<lparr>GetDatabaseWithResponse_calls := 1\<rparr>)
   \<and> ResourceId (resourceData ((initialWorld keyspaceData)\<lparr>GetDatabaseWithResponse_calls := 1\<rparr>))
       = []
   \<and> resourceCDCCreate orgOnlyRemote (initialWorld cdcData)
       = Some (Return (Some ''connection refused''),
               (initialWorld cdcData)\<lparr>GetCurrentOrganization_calls := 1, getDatabase_calls := 1\<rparr>)
   \<and> Return (Some ''connection refused'') \<noteq> (Return None :: Diagnostics go)
   \<and> ResourceId (resourceData
         ((initialWorld cdcData)\<lparr>GetCurrentOrganization_calls := 1, getDatabase_calls := 1\<rparr>))
       = []"
proof -
  have schema: "set resourceKeyspace_Schema
      \<subseteq> set (SchemaKeys (resourceData (initialWorld keyspaceData)))"
    by (simp add: keyspaceData_def)
  have attempt: "keyspaceCreateAttempt (databaseRemote ERROR) a b (initialWorld keyspaceData)
      = (Some (NonRetryableError ''database failed to reach active status: status=ERROR''),
         (initialWorld keyspaceData)\<lparr>GetDatabaseWithResponse_calls := 1\<rparr>)" for a b
    by (simp add: keyspaceCreateAttempt_def Let_def databaseRemote_def databaseReply_def ERROR_def)
  have keyspace: "resourceKeyspaceCreate (databaseRemote ERROR) (Suc 0) (initialWorld keyspaceData)
       = (Some ''database failed to reach active status: status=ERROR'',
          (initialWorld keyspaceData)\<lparr>GetDatabaseWithResponse_calls := 1\<rparr>)"
    by (simp add: resourceKeyspaceCreate_def Let_def attempt)
  have cdc: "resourceCDCCreate orgOnlyRemote (initialWorld cdcData)
       = Some (Return (Some ''connection refused''),
               (initialWorld cdcData)\<lparr>GetCurrentOrganization_calls := 1, getDatabase_calls := 1\<rparr>)"
    by (simp add: resourceCDCCreate_def Let_def prepCDC_def orgOnlyRemote_def unreachableRemote_def)
  have ids: "ResourceId (resourceData (initialWorld keyspaceData)) = []"
    "ResourceId (resourceData (initialWorld cdcData)) = []"
    by (simp_all add: keyspaceData_def cdcData_def)
  have "ResourceId (resourceData ((initialWorld keyspaceData)\<lparr>GetDatabaseWithResponse_calls := 1\<rparr>))
      = ResourceId (resourceData (initialWorld keyspaceData))"
    using failed_create_keeps_id
      [where w = "initialWorld keyspaceData" and env = "databaseRemote ERROR"
        and timeout = "Suc 0"
        and err = "''database failed to reach active status: status=ERROR''"
        and w' = "(initialWorld keyspaceData)\<lparr>GetDatabaseWithResponse_calls := 1\<rparr>"]
      schema keyspace
    by blast
  moreover
  have "ResourceId (resourceData
          ((initialWorld cdcData)\<lparr>GetCurrentOrganization_calls := 1, getDatabase_calls := 1\<rparr>))
      = ResourceId (resourceData (initialWorld cdcData))"
    using failed_create_keeps_id
      [where w = "initialWorld cdcData" and env = orgOnlyRemote
        and res = "Return (Some ''connection refused'')"
        and w'' = "(initialWorld cdcData)\<lparr>GetCurrentOrganization_calls := 1,
                     getDatabase_calls := 1\<rparr>"]
      cdc
    by blast
  ultimately show ?thesis
    using schema keyspace cdc ids by simp
qed

text \<open>
  C9. When the listing of the tenant's tokens succeeds and decodes to the empty list,
  \<open>getPulsarToken\<close> panics on \<^verbatim>\<open>streamingTokens[0]\<close> right after the listing call; it
  does not return an error.
\<close>

theorem getPulsarToken_empty_list_panics:
  assumes listing: "IdListTenantTokensWithResponse env (IdListTenantTokensWithResponse_calls w)
                      = Inr body"
      and empty: "Unmarshal_StreamingTokens env body = Inr []"
  shows "getPulsarToken env w
           = (Panic ''index out of range [0] with length 0'',
              w\<lparr>IdListTenantTokensWithResponse_calls :=
                   Suc (IdListTenantTokensWithResponse_calls w)\<rparr>)"
  by (simp add: getPulsarToken_def Let_def listing empty)

theorem getPulsarToken_empty_list_panics_witness:
  "getPulsarToken noTokensRemote (initialWorld cdcData)
     = (Panic ''index out of range [0] with length 0'',
        (initialWorld cdcData)\<lparr>IdListTenantTokensWithResponse_calls := 1\<rparr>)"
proof -
  have 1: "IdListTenantTokensWithResponse noTokensRemote
             (IdListTenantTokensWithResponse_calls (initialWorld cdcData)) = Inr ''tokens''"
    by (simp add: noTokensRemote_def)
  have 2: "Unmarshal_StreamingTokens noTokensRemote ''tokens'' = Inr []"
    by (simp add: noTokensRemote_def)
  show ?thesis
    using getPulsarToken_empty_list_panics [OF 1 2] by simp
qed

lemma cdcListed_iff:
  "cdcListed cdcResult keyspace table
     \<longleftrightarrow> (\<exists>e \<in> set cdcResult. Keyspace e = keyspace \<and> DatabaseTable e = table)"
  by (induction cdcResult) auto

text \<open>
  C10. On a run of CDC read that reaches a successful listing: if the listing holds an
  entry with the keyspace and table decoded from the id, the read returns success and
  leaves the resource data, the id included, as it was. If it holds no such entry, the
  read stores \<open>connector_status\<close> and \<open>data_topic\<close> of the first entry of the listing
  and then clears the id; and if the listing is empty, the read panics on
  \<^verbatim>\<open>cdcResult[0]\<close>.
\<close>

theorem cdc_read_branches:
  assumes parse: "parseCDCID (ResourceId (resourceData w))
                    = Inr (databaseId, keyspace, table, tenantName)"
      and org: "GetCurrentOrganization env (GetCurrentOrganization_calls w) = Inr orgBody"
      and read: "snd (HttpBody orgBody) = None"
      and prep: "prepCDC env (w\<lparr>GetCurrentOrganization_calls :=
                                  Suc (GetCurrentOrganization_calls w)\<rparr>) = (Return creds, w2)"
      and get: "GetCDC env (GetCDC_calls w2) = Inr getCDCResponse"
      and ok: "HasPrefix (HttpStatus getCDCResponse) ''2''"
      and listing: "cdcResult = Unmarshal_CDCResult env (fst (HttpBody getCDCResponse))"
      and w3: "w3 = w2\<lparr>GetCDC_calls := Suc (GetCDC_calls w2)\<rparr>"
  shows "((\<exists>e \<in> set cdcResult. Keyspace e = keyspace \<and> DatabaseTable e = table) \<longrightarrow>
            resourceCDCRead env w = (Return None, w3) \<and> resourceData w3 = resourceData w)
       \<and> (\<not> (\<exists>e \<in> set cdcResult. Keyspace e = keyspace \<and> DatabaseTable e = table) \<longrightarrow>
            (\<forall>e es. cdcResult = e # es
                \<and> {''connector_status'', ''data_topic''} \<subseteq> set (SchemaKeys (resourceData w)) \<longrightarrow>
              resourceCDCRead env w
                = (Return None,
                   w3\<lparr>resourceData := (resourceData w)\<lparr>ResourceId := [],
                        Attrs := (Attrs (resourceData w))
                          (''connector_status'' \<mapsto> ConnectorStatus e,
                           ''data_topic'' \<mapsto> DataTopic e)\<rparr>\<rparr>))
          \<and> (cdcResult = [] \<longrightarrow>
              resourceCDCRead env w = (Panic ''index out of range [0] with length 0'', w3)))"
proof -
  have d2: "resourceData w2 = resourceData w"
    using prepCDC_resourceData
      [of env "w\<lparr>GetCurrentOrganization_calls := Suc (GetCurrentOrganization_calls w)\<rparr>"] prep
    by simp
  then have d3: "resourceData w3 = resourceData w"
    by (simp add: w3)
  note defs = resourceCDCRead_def Let_def parse org read prep get ok listing [symmetric] w3
  show ?thesis
  proof (cases "cdcListed cdcResult keyspace table")
    case True
    then have "resourceCDCRead env w = (Return None, w3)"
      by (simp add: defs)
    with True d3 show ?thesis
      by (simp add: cdcListed_iff)
  next
    case False
    show ?thesis
    proof (cases cdcResult)
      case Nil
      with False have "resourceCDCRead env w
          = (Panic ''index out of range [0] with length 0'', w3)"
        by (simp add: defs)
      with False Nil show ?thesis
        by (simp add: cdcListed_iff)
    next
      case (Cons e es)
      from False have unlisted:
        "\<not> (\<exists>e \<in> set cdcResult. Keyspace e = keyspace \<and> DatabaseTable e = table)"
        by (simp add: cdcListed_iff)
      have "resourceCDCRead env w
                = (Return None,
                   w3\<lparr>resourceData := (resourceData w)\<lparr>ResourceId := [],
                        Attrs := (Attrs (resourceData w))
                          (''connector_status'' \<mapsto> ConnectorStatus e,
                           ''data_topic'' \<mapsto> DataTopic e)\<rparr>\<rparr>)"
        if "{''connector_status'', ''data_topic''} \<subseteq> set (SchemaKeys (resourceData w))"
        using that False Cons d2
        by (simp add: defs ResourceData_Set_def ResourceData_SetId_def)
      with unlisted Cons show ?thesis
        by auto
    qed
  qed
qed

theorem cdc_read_branches_witness:
  "resourceCDCRead (listingRemote [otherEntry, ownEntry]) (initialWorld cdcStoredData)
     = (Return None,
        (initialWorld cdcStoredData)\<lparr>GetCurrentOrganization_calls := 1, getDatabase_calls := 1,
          IdListTenantTokensWithResponse_calls := 1, GetTokenByIDWithResponse_calls := 1,
          GetCDC_calls := 1\<rparr>)
   \<and> resourceCDCRead (listingRemote [otherEntry]) (initialWorld cdcStoredData)
     = (Return None,
        (initialWorld cdcStoredData)\<lparr>
          resourceData := cdcStoredData\<lparr>ResourceId := [],
            Attrs := (Attrs cdcStoredData)(''connector_status'' \<mapsto> ''running'',
                                           ''data_topic'' \<mapsto> ''topic'')\<rparr>,
          GetCurrentOrganization_calls := 1, getDatabase_calls := 1,
          IdListTenantTokensWithResponse_calls := 1, GetTokenByIDWithResponse_calls := 1,
          GetCDC_calls := 1\<rparr>)
   \<and> resourceCDCRead (listingRemote []) (initialWorld cdcStoredData)
     = (Panic ''index out of range [0] with length 0'',
        (initialWorld cdcStoredData)\<lparr>GetCurrentOrganization_calls := 1, getDatabase_calls := 1,
          IdListTenantTokensWithResponse_calls := 1, GetTokenByIDWithResponse_calls := 1,
          GetCDC_calls := 1\<rparr>)"
proof -
  let ?w = "initialWorld cdcStoredData"
  let ?org = "\<lparr>HttpStatus = ''200 OK'', HttpBody = (''org'', None)\<rparr>"
  let ?reply = "\<lparr>HttpStatus = ''200 OK'', HttpBody = (''listing'', None)\<rparr>"
  let ?w2 = "?w\<lparr>GetCurrentOrganization_calls := 1, getDatabase_calls := 1,
          IdListTenantTokensWithResponse_calls := 1, GetTokenByIDWithResponse_calls := 1\<rparr>"
  have parse: "parseCDCID (ResourceId (resourceData ?w)) = Inr (''db-1'', ''ks'', ''tbl'', ''tenant'')"
  proof -
    have "parseCDCID ''db-1/ks/tbl/tenant'' = Inr (''db-1'', ''ks'', ''tbl'', ''tenant'')"
      by code_simp
    then show ?thesis
      by (simp add: cdcStoredData_def)
  qed
  have org: "GetCurrentOrganization (listingRemote es) (GetCurrentOrganization_calls ?w) = Inr ?org"
    for es
    by simp
  have read: "snd (HttpBody ?org) = None"
    by simp
  have prep: "prepCDC (listingRemote es)
        (?w\<lparr>GetCurrentOrganization_calls := Suc (GetCurrentOrganization_calls ?w)\<rparr>)
      = (Return (GetPulsarCluster ''GCP'' ''us-east1'', ''secret'', None), ?w2)" for es
    by (simp add: prepCDC_def getPulsarToken_def Let_def)
  have get: "GetCDC (listingRemote es) (GetCDC_calls ?w2) = Inr ?reply" for es
    by simp
  have ok: "HasPrefix (HttpStatus ?reply) ''2''"
    by (simp add: HasPrefix_def)
  have listing: "es = Unmarshal_CDCResult (listingRemote es) (fst (HttpBody ?reply))" for es
    by simp
  note branches = cdc_read_branches [OF parse org read prep get ok listing refl]
  have schema: "{''connector_status'', ''data_topic''} \<subseteq> set (SchemaKeys (resourceData ?w))"
    by (simp add: cdcStoredData_def cdcData_def resourceCDC_Schema_def)
  have data: "resourceData ?w = cdcStoredData"
    by simp
  have listed: "\<exists>e \<in> set [otherEntry, ownEntry]. Keyspace e = ''ks'' \<and> DatabaseTable e = ''tbl''"
    by (simp add: ownEntry_def)
  have unlisted: "\<not> (\<exists>e \<in> set [otherEntry]. Keyspace e = ''ks'' \<and> DatabaseTable e = ''tbl'')"
    by (simp add: otherEntry_def)
  have entry: "ConnectorStatus otherEntry = ''running''" "DataTopic otherEntry = ''topic''"
    by (simp_all add: otherEntry_def)
  have 1: "resourceCDCRead (listingRemote [otherEntry, ownEntry]) ?w
      = (Return None, ?w2\<lparr>GetCDC_calls := Suc (GetCDC_calls ?w2)\<rparr>)"
    using branches [of "[otherEntry, ownEntry]"] listed by blast
  have 2: "resourceCDCRead (listingRemote [otherEntry]) ?w
      = (Return None,
         ?w2\<lparr>GetCDC_calls := Suc (GetCDC_calls ?w2)\<rparr>\<lparr>
           resourceData := (resourceData ?w)\<lparr>ResourceId := [],
             Attrs := (Attrs (resourceData ?w))
               (''connector_status'' \<mapsto> ConnectorStatus otherEntry,
                ''data_topic'' \<mapsto> DataTopic otherEntry)\<rparr>\<rparr>)"
    using branches [of "[otherEntry]"] unlisted schema by blast
  have 3: "resourceCDCRead (listingRemote []) ?w
      = (Panic ''index out of range [0] with length 0'',
         ?w2\<lparr>GetCDC_calls := Suc (GetCDC_calls ?w2)\<rparr>)"
    using branches [of "[]"] by simp
  show ?thesis
    unfolding 1 2 3 by (simp add: entry)
qed

end
